theory Spec2Isabelle
  imports Main "HOL-Library.Sublist" "HOL-Library.Multiset"
begin

section \<open>JavaScript numbers and arrays\<close>

text \<open>
  The controller only ever computes with integers (indices, lengths, time values) and with
  \<open>NaN\<close>, which arises from \<open>undefined + 1\<close>, from \<open>x % 0\<close> and from an invalid date.
  A number is therefore \<open>NaN\<close> or an integer; a possibly unassigned property is an option,
  \<open>None\<close> being \<open>undefined\<close>.
\<close>

datatype jsnum = NaN | Num int

definition ToNumber :: "jsnum option \<Rightarrow> jsnum" where
  "ToNumber v = (case v of None \<Rightarrow> NaN | Some n \<Rightarrow> n)"

fun js_add :: "jsnum \<Rightarrow> jsnum \<Rightarrow> jsnum" where
  "js_add (Num a) (Num b) = Num (a + b)"
| "js_add _ _ = NaN"

fun js_sub :: "jsnum \<Rightarrow> jsnum \<Rightarrow> jsnum" where
  "js_sub (Num a) (Num b) = Num (a - b)"
| "js_sub _ _ = NaN"

text \<open>The remainder operator \<open>%\<close> truncates: the result has the sign of the dividend, and a
  zero divisor gives \<open>NaN\<close>.\<close>

fun js_rem :: "jsnum \<Rightarrow> jsnum \<Rightarrow> jsnum" where
  "js_rem (Num a) (Num b) = (if b = 0 then NaN else Num (sgn a * (\<bar>a\<bar> mod \<bar>b\<bar>)))"
| "js_rem _ _ = NaN"

text \<open>\<open>xs[i]\<close>: an index that is not an integer within the bounds reads \<open>undefined\<close>.\<close>

fun js_index :: "'a list \<Rightarrow> jsnum \<Rightarrow> 'a option" where
  "js_index xs (Num i) = (if 0 \<le> i \<and> i < int (length xs) then Some (xs ! nat i) else None)"
| "js_index xs NaN = None"

fun decimal :: "nat \<Rightarrow> string" where
  "decimal n = (if n < 10 then [char_of (48 + n)]
                else decimal (n div 10) @ [char_of (48 + n mod 10)])"

declare decimal.simps [simp del]

fun js_toString :: "jsnum \<Rightarrow> string" where
  "js_toString NaN = ''NaN''"
| "js_toString (Num i) = (if i < 0 then ''-'' @ decimal (nat (- i)) else decimal (nat i))"

text \<open>
  \<open>Array.prototype.sort(comparefn)\<close>: a comparator result of \<open>NaN\<close> counts as \<open>0\<close>, and the
  sort is stable. For a comparator that is a total preorder the result of a stable sort is
  unique, so the insertion sort below computes what every conforming engine computes.
\<close>

definition SortCompare :: "('a \<Rightarrow> 'a \<Rightarrow> jsnum) \<Rightarrow> 'a \<Rightarrow> 'a \<Rightarrow> int" where
  "SortCompare comparefn x y = (case comparefn x y of NaN \<Rightarrow> 0 | Num v \<Rightarrow> v)"

fun sort_insert :: "('a \<Rightarrow> 'a \<Rightarrow> jsnum) \<Rightarrow> 'a \<Rightarrow> 'a list \<Rightarrow> 'a list" where
  "sort_insert comparefn x [] = [x]"
| "sort_insert comparefn x (y # ys) =
     (if SortCompare comparefn x y \<le> 0 then x # y # ys
      else y # sort_insert comparefn x ys)"

definition Array_sort :: "('a \<Rightarrow> 'a \<Rightarrow> jsnum) \<Rightarrow> 'a list \<Rightarrow> 'a list" where
  "Array_sort comparefn xs = foldr (sort_insert comparefn) xs []"

section \<open>Dates\<close>

text \<open>
  \<open>new Date(s)\<close> used as a number is the time value of \<open>s\<close> in milliseconds since the epoch.
  The manifest writes every date in the date-only ISO form \<open>YYYY-MM-DD\<close>, which is read as
  midnight UTC. That form, with a day the month has, is all this function reads: JavaScript
  reads more (a year alone, a year and a month, a date with a time), and for those strings the
  \<open>NaN\<close> given here, the time value of an invalid date, is not what JavaScript gives.
\<close>

definition digit :: "char \<Rightarrow> nat option" where
  "digit c = (let n = (of_char c :: nat) in if 48 \<le> n \<and> n \<le> 57 then Some (n - 48) else None)"

fun digits :: "nat \<Rightarrow> string \<Rightarrow> nat option" where
  "digits acc [] = Some acc"
| "digits acc (c # cs) = (case digit c of None \<Rightarrow> None | Some d \<Rightarrow> digits (10 * acc + d) cs)"

definition leap_year :: "nat \<Rightarrow> bool" where
  "leap_year y = (y mod 4 = 0 \<and> (y mod 100 \<noteq> 0 \<or> y mod 400 = 0))"

definition days_in_month :: "nat \<Rightarrow> nat \<Rightarrow> nat" where
  "days_in_month y m =
     (if m = 2 then (if leap_year y then 29 else 28)
      else if m = 4 \<or> m = 6 \<or> m = 9 \<or> m = 11 then 30 else 31)"

definition days_from_civil :: "nat \<Rightarrow> nat \<Rightarrow> nat \<Rightarrow> int" where
  "days_from_civil y m d =
     (let y' = (if m \<le> 2 then int y - 1 else int y);
          era = y' div 400;
          yoe = y' - era * 400;
          doy = (153 * (if m > 2 then int m - 3 else int m + 9) + 2) div 5 + int d - 1;
          doe = yoe * 365 + yoe div 4 - yoe div 100 + doy
      in era * 146097 + doe - 719468)"

definition new_Date :: "string \<Rightarrow> jsnum" where
  "new_Date s =
     (if length s = 10 \<and> s ! 4 = CHR ''-'' \<and> s ! 7 = CHR ''-'' then
        (case (digits 0 (take 4 s), digits 0 (take 2 (drop 5 s)), digits 0 (drop 8 s)) of
           (Some y, Some m, Some d) \<Rightarrow>
             (if 1 \<le> m \<and> m \<le> 12 \<and> 1 \<le> d \<and> d \<le> days_in_month y m
              then Num (days_from_civil y m d * 86400000) else NaN)
         | _ \<Rightarrow> NaN)
      else NaN)"

section \<open>The media manifest (media-data.js)\<close>

record entry =
  src :: string
  date :: string
  poster :: "string option"

record media = entry +
  type :: string

record MEDIA_DATA =
  images :: "entry list"
  videos :: "entry list"

text \<open>\<open>{ ...img, type: 'image' }\<close>: the entry, extended by its type.\<close>

definition with_type :: "string \<Rightarrow> entry \<Rightarrow> media" where
  "with_type t e = \<lparr>src = src e, date = date e, poster = poster e, type = t\<rparr>"

text \<open>\<open>(a, b) => new Date(b.date) - new Date(a.date)\<close>\<close>

definition newest_first :: "media \<Rightarrow> media \<Rightarrow> jsnum" where
  "newest_first a b = js_sub (new_Date (date b)) (new_Date (date a))"

definition ALL_MEDIA :: "MEDIA_DATA \<Rightarrow> media list" where
  "ALL_MEDIA M =
     Array_sort newest_first
       (map (with_type ''image'') (images M) @ map (with_type ''video'') (videos M))"

text \<open>The manifest of \<open>js/media-data.js\<close>: 69 images and 12 videos, in the order of the file.
  Its \<open>profile\<close> entry, which the controller does not read, is left out; a poster that is
  \<open>null\<close> or absent is \<open>None\<close>.\<close>

definition MEDIA_DATA :: MEDIA_DATA where
  "MEDIA_DATA =
     \<lparr>images =
        [\<lparr>src = ''assets/media/instagram/2025-11-08_12-11-37_UTC_1.jpg'', date = ''2025-11-08'', poster = None\<rparr>,
         \<lparr>src = ''assets/media/instagram/2025-11-08_12-11-37_UTC_2.jpg'', date = ''2025-11-08'', poster = None\<rparr>,
         \<lparr>src = ''assets/media/instagram/2025-11-08_12-11-37_UTC_3.jpg'', date = ''2025-11-08'', poster = None\<rparr>,
         \<lparr>src = ''assets/media/instagram/2025-11-08_12-11-37_UTC_4.jpg'', date = ''2025-11-08'', poster = None\<rparr>,
         \<lparr>src = ''assets/media/instagram/2025-11-08_12-11-37_UTC_5.jpg'', date = ''2025-11-08'', poster = None\<rparr>,
         \<lparr>src = ''assets/media/instagram/2025-11-08_12-11-37_UTC_6.jpg'', date = ''2025-11-08'', poster = None\<rparr>,
         \<lparr>src = ''assets/media/instagram/2025-11-08_12-11-37_UTC_7.jpg'', date = ''2025-11-08'', poster = None\<rparr>,
         \<lparr>src = ''assets/media/instagram/2025-09-08_16-42-50_UTC_1.jpg'', date = ''2025-09-08'', poster = None\<rparr>,
         \<lparr>src = ''assets/media/instagram/2025-09-08_16-42-50_UTC_2.jpg'', date = ''2025-09-08'', poster = None\<rparr>,
         \<lparr>src = ''assets/media/instagram/2025-09-08_16-42-50_UTC_4.jpg'', date = ''2025-09-08'', poster = None\<rparr>,
         \<lparr>src = ''assets/media/instagram/2025-09-08_16-42-50_UTC_5.jpg'', date = ''2025-09-08'', poster = None\<rparr>,
         \<lparr>src = ''assets/media/instagram/2025-09-08_16-42-50_UTC_6.jpg'', date = ''2025-09-08'', poster = None\<rparr>,
         \<lparr>src = ''assets/media/instagram/2025-09-08_16-42-50_UTC_7.jpg'', date = ''2025-09-08'', poster = None\<rparr>,
         \<lparr>src = ''assets/media/instagram/2025-07-06_14-09-53_UTC_1.jpg'', date = ''2025-07-06'', poster = None\<rparr>,
         \<lparr>src = ''assets/media/instagram/2025-07-06_14-09-53_UTC_2.jpg'', date = ''2025-07-06'', poster = None\<rparr>,
         \<lparr>src = ''assets/media/instagram/2025-05-19_16-11-23_UTC_1.jpg'', date = ''2025-05-19'', poster = None\<rparr>,
         \<lparr>src = ''assets/media/instagram/2025-05-19_16-11-23_UTC_3.jpg'', date = ''2025-05-19'', poster = None\<rparr>,
         \<lparr>src = ''assets/media/instagram/2025-05-19_16-11-23_UTC_4.jpg'', date = ''2025-05-19'', poster = None\<rparr>,
         \<lparr>src = ''assets/media/instagram/2025-05-19_16-11-23_UTC_5.jpg'', date = ''2025-05-19'', poster = None\<rparr>,
         \<lparr>src = ''assets/media/instagram/2025-04-14_09-26-31_UTC_1.jpg'', date = ''2025-04-14'', poster = None\<rparr>,
         \<lparr>src = ''assets/media/instagram/2025-04-14_09-26-31_UTC_2.jpg'', date = ''2025-04-14'', poster = None\<rparr>,
         \<lparr>src = ''assets/media/instagram/2025-04-14_09-26-31_UTC_4.jpg'', date = ''2025-04-14'', poster = None\<rparr>,
         \<lparr>src = ''assets/media/instagram/2025-04-14_09-26-31_UTC_6.jpg'', date = ''2025-04-14'', poster = None\<rparr>,
         \<lparr>src = ''assets/media/instagram/2024-12-31_08-49-28_UTC_1.jpg'', date = ''2024-12-31'', poster = None\<rparr>,
         \<lparr>src = ''assets/media/instagram/2024-12-31_08-49-28_UTC_2.jpg'', date = ''2024-12-31'', poster = None\<rparr>,
         \<lparr>src = ''assets/media/instagram/2024-12-31_08-49-28_UTC_3.jpg'', date = ''2024-12-31'', poster = None\<rparr>,
         \<lparr>src = ''assets/media/instagram/2024-12-31_08-49-28_UTC_4.jpg'', date = ''2024-12-31'', poster = None\<rparr>,
         \<lparr>src = ''assets/media/instagram/2024-12-31_08-49-28_UTC_5.jpg'', date = ''2024-12-31'', poster = None\<rparr>,
         \<lparr>src = ''assets/media/instagram/2024-12-31_08-49-28_UTC_6.jpg'', date = ''2024-12-31'', poster = None\<rparr>,
         \<lparr>src = ''assets/media/instagram/2024-12-31_08-49-28_UTC_7.jpg'', date = ''2024-12-31'', poster = None\<rparr>,
         \<lparr>src = ''assets/media/instagram/2024-12-31_08-49-28_UTC_8.jpg'', date = ''2024-12-31'', poster = None\<rparr>,
         \<lparr>src = ''assets/media/instagram/2024-07-16_05-22-22_UTC_1.jpg'', date = ''2024-07-16'', poster = None\<rparr>,
         \<lparr>src = ''assets/media/instagram/2024-07-16_05-22-22_UTC_2.jpg'', date = ''2024-07-16'', poster = None\<rparr>,
         \<lparr>src = ''assets/media/instagram/2024-07-16_05-22-22_UTC_3.jpg'', date = ''2024-07-16'', poster = None\<rparr>,
         \<lparr>src = ''assets/media/instagram/2024-07-16_05-22-22_UTC_5.jpg'', date = ''2024-07-16'', poster = None\<rparr>,
         \<lparr>src = ''assets/media/instagram/2024-07-16_05-22-22_UTC_6.jpg'', date = ''2024-07-16'', poster = None\<rparr>,
         \<lparr>src = ''assets/media/instagram/2024-07-08_06-53-37_UTC_1.jpg'', date = ''2024-07-08'', poster = None\<rparr>,
         \<lparr>src = ''assets/media/instagram/2024-07-08_06-53-37_UTC_2.jpg'', date = ''2024-07-08'', poster = None\<rparr>,
         \<lparr>src = ''assets/media/instagram/2024-07-08_06-53-37_UTC_3.jpg'', date = ''2024-07-08'', poster = None\<rparr>,
         \<lparr>src = ''assets/media/instagram/2024-07-08_06-53-37_UTC_4.jpg'', date = ''2024-07-08'', poster = None\<rparr>,
         \<lparr>src = ''assets/media/instagram/2024-07-08_06-53-37_UTC_5.jpg'', date = ''2024-07-08'', poster = None\<rparr>,
         \<lparr>src = ''assets/media/instagram/2024-07-08_06-53-37_UTC_6.jpg'', date = ''2024-07-08'', poster = None\<rparr>,
         \<lparr>src = ''assets/media/instagram/2024-06-05_10-35-02_UTC_1.jpg'', date = ''2024-06-05'', poster = None\<rparr>,
         \<lparr>src = ''assets/media/instagram/2024-06-05_10-35-02_UTC_2.jpg'', date = ''2024-06-05'', poster = None\<rparr>,
         \<lparr>src = ''assets/media/instagram/2024-04-19_09-25-08_UTC_1.jpg'', date = ''2024-04-19'', poster = None\<rparr>,
         \<lparr>src = ''assets/media/instagram/2024-04-19_09-25-08_UTC_2.jpg'', date = ''2024-04-19'', poster = None\<rparr>,
         \<lparr>src = ''assets/media/instagram/2024-04-19_09-25-08_UTC_3.jpg'', date = ''2024-04-19'', poster = None\<rparr>,
         \<lparr>src = ''assets/media/instagram/2024-04-19_09-25-08_UTC_4.jpg'', date = ''2024-04-19'', poster = None\<rparr>,
         \<lparr>src = ''assets/media/instagram/2024-04-19_09-25-08_UTC_5.jpg'', date = ''2024-04-19'', poster = None\<rparr>,
         \<lparr>src = ''assets/media/instagram/2024-04-19_09-25-08_UTC_6.jpg'', date = ''2024-04-19'', poster = None\<rparr>,
         \<lparr>src = ''assets/media/instagram/2024-03-18_04-05-40_UTC_1.jpg'', date = ''2024-03-18'', poster = None\<rparr>,
         \<lparr>src = ''assets/media/instagram/2024-03-18_04-05-40_UTC_2.jpg'', date = ''2024-03-18'', poster = None\<rparr>,
         \<lparr>src = ''assets/media/instagram/2024-03-18_04-05-40_UTC_3.jpg'', date = ''2024-03-18'', poster = None\<rparr>,
         \<lparr>src = ''assets/media/instagram/2024-03-04_05-16-17_UTC_1.jpg'', date = ''2024-03-04'', poster = None\<rparr>,
         \<lparr>src = ''assets/media/instagram/2024-03-04_05-16-17_UTC_2.jpg'', date = ''2024-03-04'', poster = None\<rparr>,
         \<lparr>src = ''assets/media/instagram/2024-03-04_05-16-17_UTC_3.jpg'', date = ''2024-03-04'', poster = None\<rparr>,
         \<lparr>src = ''assets/media/instagram/2024-03-04_05-16-17_UTC_5.jpg'', date = ''2024-03-04'', poster = None\<rparr>,
         \<lparr>src = ''assets/media/instagram/2024-03-04_05-16-17_UTC_7.jpg'', date = ''2024-03-04'', poster = None\<rparr>,
         \<lparr>src = ''assets/media/instagram/2024-02-19_02-47-10_UTC_1.jpg'', date = ''2024-02-19'', poster = None\<rparr>,
         \<lparr>src = ''assets/media/instagram/2024-02-19_02-47-10_UTC_2.jpg'', date = ''2024-02-19'', poster = None\<rparr>,
         \<lparr>src = ''assets/media/instagram/2024-02-19_02-47-10_UTC_3.jpg'', date = ''2024-02-19'', poster = None\<rparr>,
         \<lparr>src = ''assets/media/instagram/2024-02-19_02-47-10_UTC_5.jpg'', date = ''2024-02-19'', poster = None\<rparr>,
         \<lparr>src = ''assets/media/instagram/2023-11-25_01-51-41_UTC_1.jpg'', date = ''2023-11-25'', poster = None\<rparr>,
         \<lparr>src = ''assets/media/instagram/2023-11-25_01-51-41_UTC_2.jpg'', date = ''2023-11-25'', poster = None\<rparr>,
         \<lparr>src = ''assets/media/instagram/2023-11-25_01-51-41_UTC_3.jpg'', date = ''2023-11-25'', poster = None\<rparr>,
         \<lparr>src = ''assets/media/instagram/2023-11-25_01-51-41_UTC_4.jpg'', date = ''2023-11-25'', poster = None\<rparr>,
         \<lparr>src = ''assets/media/instagram/2023-11-25_01-51-41_UTC_5.jpg'', date = ''2023-11-25'', poster = None\<rparr>,
         \<lparr>src = ''assets/media/instagram/2023-11-25_01-51-41_UTC_6.jpg'', date = ''2023-11-25'', poster = None\<rparr>,
         \<lparr>src = ''assets/media/instagram/2023-11-25_01-51-41_UTC_7.jpg'', date = ''2023-11-25'', poster = None\<rparr>],
      videos =
        [\<lparr>src = ''assets/media/instagram/2025-06-15_14-13-35_UTC.mp4'', date = ''2025-06-15'', poster = None\<rparr>,
         \<lparr>src = ''assets/media/instagram/2025-09-08_16-42-50_UTC_3.mp4'', date = ''2025-09-08'', poster = None\<rparr>,
         \<lparr>src = ''assets/media/instagram/2025-07-06_14-09-53_UTC_3.mp4'', date = ''2025-07-06'', poster = None\<rparr>,
         \<lparr>src = ''assets/media/instagram/2025-07-06_14-09-53_UTC_4.mp4'', date = ''2025-07-06'', poster = None\<rparr>,
         \<lparr>src = ''assets/media/instagram/2025-05-19_16-11-23_UTC_2.mp4'', date = ''2025-05-19'', poster = None\<rparr>,
         \<lparr>src = ''assets/media/instagram/2025-04-14_09-26-31_UTC_3.mp4'', date = ''2025-04-14'', poster = None\<rparr>,
         \<lparr>src = ''assets/media/instagram/2025-04-14_09-26-31_UTC_5.mp4'', date = ''2025-04-14'', poster = None\<rparr>,
         \<lparr>src = ''assets/media/instagram/2024-07-16_05-22-22_UTC_4.mp4'', date = ''2024-07-16'', poster = None\<rparr>,
         \<lparr>src = ''assets/media/instagram/2024-04-19_09-25-08_UTC_7.mp4'', date = ''2024-04-19'', poster = None\<rparr>,
         \<lparr>src = ''assets/media/instagram/2024-03-04_05-16-17_UTC_4.mp4'', date = ''2024-03-04'', poster = None\<rparr>,
         \<lparr>src = ''assets/media/instagram/2024-03-04_05-16-17_UTC_6.mp4'', date = ''2024-03-04'', poster = None\<rparr>,
         \<lparr>src = ''assets/media/instagram/2024-02-19_02-47-10_UTC_4.mp4'', date = ''2024-02-19'', poster = None\<rparr>]\<rparr>"

section \<open>The page\<close>

text \<open>
  The controller reaches the page through a fixed set of mount points, which \<open>cacheDOM\<close> looks
  up once; a lookup that finds nothing yields \<open>null\<close>, here \<open>None\<close>. Of an element the model
  keeps what the controller reads or writes: the class list of a section, the number a counter
  shows, the slides of the slide container, the children of the lightbox content.
\<close>

record video =
  v_src :: "string option"
  v_data_src :: "string option"
  v_poster :: "string option"
  v_preload :: string
  v_muted :: bool
  v_loop :: bool
  v_playsinline :: bool
  v_controls :: bool
  v_autoplay :: bool
  v_swiper_lazy :: bool
  v_paused :: bool
  v_currentTime :: nat

record img =
  i_src :: "string option"
  i_data_src :: "string option"
  i_alt :: string
  i_loading :: string
  i_swiper_lazy :: bool

text \<open>A video slide holds its video and the play overlay, of which the style's opacity is kept.\<close>

datatype slide_content = VideoSlide video string | ImageSlide img

record slide =
  dataset_index :: nat
  swiper_slide_active :: bool
  content :: slide_content
  preloader :: bool

datatype lightbox_child = LightboxVideo video | LightboxImg img

record tab_btn =
  dataset_filter :: "string option"
  btn_active :: bool

text \<open>
  Modelled from the spec: the HTML page is not among the sources, so the page is a parameter
  of every operation, of the shape the DOM contract of the spec gives it: mount points for the
  hero section, the gallery section, the tab buttons carrying a filter attribute, the slide
  container, the counter elements, and the lightbox overlay and content. The slide container
  \<open>#swiperWrapper\<close> is the wrapper of the carousel \<open>.gallery-swiper\<close>, so the videos of its slides
  are among those the selector \<open>.gallery-swiper video\<close> finds; whether the lightbox lies inside
  that container as well is a property of the page. The videos of the page are those of the
  slides and the one the lightbox may hold. The loader, which \<open>hideLoader\<close> only animates, and
  the buttons, which matter by the clicks they deliver, are left out.
\<close>

record page =
  innerWidth :: int
  heroCover :: "string list option"
  galleryView :: "string list option"
  swiperWrapper :: "slide list option"
  tabButtons :: "tab_btn list"
  currentIndexEl :: "jsnum option"
  totalItemsEl :: "jsnum option"
  lightbox :: "string list option"
  lightboxContent :: "lightbox_child list option"
  lightbox_in_gallery_swiper :: bool
  body_overflow :: string

definition classList_add :: "string \<Rightarrow> string list \<Rightarrow> string list" where
  "classList_add c cl = (if c \<in> set cl then cl else cl @ [c])"

definition classList_remove :: "string \<Rightarrow> string list \<Rightarrow> string list" where
  "classList_remove c cl = removeAll c cl"

definition classList_contains :: "string \<Rightarrow> string list \<Rightarrow> bool" where
  "classList_contains c cl = (c \<in> set cl)"

text \<open>A string or \<open>null\<close> used as a condition: \<open>null\<close>, \<open>undefined\<close> and the empty string are
  falsy.\<close>

definition truthy :: "string option \<Rightarrow> bool" where
  "truthy v = (case v of None \<Rightarrow> False | Some s \<Rightarrow> s \<noteq> [])"

section \<open>The controller (gallery.js)\<close>

text \<open>
  The repository holds the controller twice: \<open>js/gallery.js\<close>, which renders every slide with
  its source set, and a lazy-loading copy, which defers the sources and caps the slides on a
  narrow window. They differ in \<open>renderSlides\<close>, \<open>initSwiper\<close> and \<open>handleVideoAutoplay\<close>.
\<close>

datatype variant = Eager | Lazy

datatype view = Hero | Gallery

text \<open>The Swiper object: which instance it is, and the index of its active slide.\<close>

record swiper_instance =
  instance_id :: nat
  loop :: bool
  realIndex :: nat

text \<open>The two callbacks handed to \<open>setTimeout\<close>, by \<open>showGallery\<close> and by \<open>showHero\<close>.\<close>

datatype timer = GalleryIn | HeroIn

record app =
  currentView :: view
  currentFilter :: "string option"
  filteredMedia :: "media list"
  swiper :: "swiper_instance option"
  lightboxIndex :: "jsnum option"
  imported_ALL_MEDIA :: "media list"
  doc :: page
  timeouts :: "timer list"
  constructed :: nat
  destroyed :: "nat list"

text \<open>A call returns, or throws after the effects it has had so far.\<close>

datatype error = TypeError

datatype outcome = Returned app | Threw error app

fun state_of :: "outcome \<Rightarrow> app" where
  "state_of (Returned s) = s"
| "state_of (Threw e s) = s"

fun throws :: "outcome \<Rightarrow> bool" where
  "throws (Returned s) = False"
| "throws (Threw e s) = True"

fun and_then :: "outcome \<Rightarrow> (app \<Rightarrow> outcome) \<Rightarrow> outcome" where
  "and_then (Returned s) f = f s"
| "and_then (Threw e s) f = Threw e s"

definition constructor :: "media list \<Rightarrow> page \<Rightarrow> app" where
  "constructor all_media p =
     \<lparr>currentView = Hero, currentFilter = Some ''image'',
      filteredMedia = filter (\<lambda>m. type m = ''image'') all_media,
      swiper = None, lightboxIndex = None, imported_ALL_MEDIA = all_media, doc = p,
      timeouts = [], constructed = 0, destroyed = []\<rparr>"

subsection \<open>Video playback\<close>

definition pause :: "video \<Rightarrow> video" where
  "pause v = v\<lparr>v_paused := True\<rparr>"

text \<open>\<open>video.play()\<close> starts the video when the browser allows it; otherwise the promise it
  returns is rejected and the video stays as it was. The browser's answer is the argument.\<close>

definition play :: "bool \<Rightarrow> video \<Rightarrow> video" where
  "play allowed v = (if allowed then v\<lparr>v_paused := False\<rparr> else v)"

definition pause_reset_slide :: "slide \<Rightarrow> slide" where
  "pause_reset_slide sl =
     (case content sl of
        VideoSlide v opacity \<Rightarrow> sl\<lparr>content := VideoSlide ((pause v)\<lparr>v_currentTime := 0\<rparr>) opacity\<rparr>
      | ImageSlide i \<Rightarrow> sl)"

fun pause_reset_child :: "lightbox_child \<Rightarrow> lightbox_child" where
  "pause_reset_child (LightboxVideo v) = LightboxVideo ((pause v)\<lparr>v_currentTime := 0\<rparr>)"
| "pause_reset_child (LightboxImg i) = LightboxImg i"

definition show_overlay :: "slide \<Rightarrow> slide" where
  "show_overlay sl =
     (case content sl of
        VideoSlide v opacity \<Rightarrow> sl\<lparr>content := VideoSlide v ''1''\<rparr>
      | ImageSlide i \<Rightarrow> sl)"

definition pauseAllVideos :: "app \<Rightarrow> app" where
  "pauseAllVideos s =
     (let p = doc s;
          p1 = p\<lparr>swiperWrapper := map_option (map pause_reset_slide) (swiperWrapper p),
                 lightboxContent :=
                   (if lightbox_in_gallery_swiper p
                    then map_option (map pause_reset_child) (lightboxContent p)
                    else lightboxContent p)\<rparr>;
          p2 = p1\<lparr>swiperWrapper := map_option (map show_overlay) (swiperWrapper p1)\<rparr>
      in s\<lparr>doc := p2\<rparr>)"

text \<open>The body of \<open>if (video) { ... }\<close>, for the slide found active.\<close>

definition play_slide :: "variant \<Rightarrow> bool \<Rightarrow> slide \<Rightarrow> slide" where
  "play_slide v allowed sl =
     (case content sl of
        VideoSlide vid opacity \<Rightarrow>
          (let vid1 = (if v = Lazy \<and> \<not> truthy (v_src vid) \<and> truthy (v_data_src vid)
                       then vid\<lparr>v_src := v_data_src vid\<rparr> else vid)
           in sl\<lparr>content := VideoSlide (play allowed vid1) ''0''\<rparr>)
      | ImageSlide i \<Rightarrow> sl)"

text \<open>\<open>document.querySelector('.swiper-slide-active')\<close> is the first slide of that class.\<close>

fun play_active :: "variant \<Rightarrow> bool \<Rightarrow> slide list \<Rightarrow> slide list" where
  "play_active v allowed [] = []"
| "play_active v allowed (sl # sls) =
     (if swiper_slide_active sl then play_slide v allowed sl # sls
      else sl # play_active v allowed sls)"

definition handleVideoAutoplay :: "variant \<Rightarrow> bool \<Rightarrow> app \<Rightarrow> app" where
  "handleVideoAutoplay v allowed s =
     (let s1 = pauseAllVideos s; p = doc s1
      in s1\<lparr>doc := p\<lparr>swiperWrapper := map_option (play_active v allowed) (swiperWrapper p)\<rparr>\<rparr>)"

subsection \<open>Slides and the Swiper instance\<close>

definition updateCounter :: "jsnum \<Rightarrow> app \<Rightarrow> app" where
  "updateCounter index s =
     (let p = doc s;
          p1 = (if currentIndexEl p \<noteq> None
                then p\<lparr>currentIndexEl := Some (js_add index (Num 1))\<rparr> else p);
          p2 = (if totalItemsEl p1 \<noteq> None
                then p1\<lparr>totalItemsEl := Some (Num (int (length (filteredMedia s))))\<rparr> else p1)
      in s\<lparr>doc := p2\<rparr>)"

definition make_slide :: "variant \<Rightarrow> nat \<Rightarrow> media \<Rightarrow> slide" where
  "make_slide v index m =
     \<lparr>dataset_index = index, swiper_slide_active = False,
      content =
        (if type m = ''video'' then
           VideoSlide
             \<lparr>v_src = (if v = Eager then Some (src m) else None),
              v_data_src = (if v = Lazy then Some (src m) else None),
              v_poster = (if v = Lazy \<and> truthy (poster m) then poster m else None),
              v_preload = (if v = Eager then ''metadata'' else ''none''),
              v_muted = True, v_loop = True, v_playsinline = True,
              v_controls = False, v_autoplay = False, v_swiper_lazy = (v = Lazy),
              v_paused = True, v_currentTime = 0\<rparr> []
         else
           ImageSlide
             \<lparr>i_src = (if v = Eager then Some (src m) else None),
              i_data_src = (if v = Lazy then Some (src m) else None),
              i_alt = ''Photo '' @ decimal (index + 1),
              i_loading = (if v = Eager then ''lazy'' else []),
              i_swiper_lazy = (v = Lazy)\<rparr>),
      preloader = (v = Lazy)\<rparr>"

definition isMobile :: "page \<Rightarrow> bool" where
  "isMobile p = (innerWidth p < 768)"

definition mediaToRender :: "variant \<Rightarrow> app \<Rightarrow> media list" where
  "mediaToRender v s =
     (if v = Lazy \<and> isMobile (doc s) then take 20 (filteredMedia s) else filteredMedia s)"

definition renderSlides :: "variant \<Rightarrow> app \<Rightarrow> app" where
  "renderSlides v s =
     (case swiperWrapper (doc s) of
        None \<Rightarrow> s
      | Some old \<Rightarrow>
          (let slides = map (\<lambda>(index, m). make_slide v index m) (enumerate 0 (mediaToRender v s));
               s1 = s\<lparr>doc := (doc s)\<lparr>swiperWrapper := Some slides\<rparr>\<rparr>;
               s2 = updateCounter (Num 0) s1
           in if v = Lazy \<and> totalItemsEl (doc s2) \<noteq> None
              then s2\<lparr>doc := (doc s2)\<lparr>totalItemsEl :=
                                         Some (Num (int (length (mediaToRender v s))))\<rparr>\<rparr>
              else s2))"

text \<open>
  Swiper is a library the page loads. Of \<open>new Swiper('.gallery-swiper', ...)\<close> the model keeps
  that it is a new object, that it starts at index 0 and that it gives the slide at its active
  index the class \<open>swiper-slide-active\<close>; of \<open>destroy\<close>, that the instance is gone.
\<close>

definition mark_active :: "nat \<Rightarrow> slide list \<Rightarrow> slide list" where
  "mark_active k sls = map (\<lambda>(i, sl). sl\<lparr>swiper_slide_active := (i = k)\<rparr>) (enumerate 0 sls)"

definition new_Swiper :: "bool \<Rightarrow> app \<Rightarrow> app" where
  "new_Swiper lp s =
     s\<lparr>swiper := Some \<lparr>instance_id = constructed s, loop = lp, realIndex = 0\<rparr>,
       constructed := constructed s + 1,
       doc := (doc s)\<lparr>swiperWrapper := map_option (mark_active 0) (swiperWrapper (doc s))\<rparr>\<rparr>"

definition destroy :: "app \<Rightarrow> app" where
  "destroy s =
     (case swiper s of None \<Rightarrow> s
      | Some sw \<Rightarrow> s\<lparr>destroyed := instance_id sw # destroyed s\<rparr>)"

definition initSwiper :: "variant \<Rightarrow> bool \<Rightarrow> app \<Rightarrow> outcome" where
  "initSwiper v allowed s =
     (case v of
        Eager \<Rightarrow>
          Returned (handleVideoAutoplay v allowed
                      (new_Swiper (length (filteredMedia s) > 3) s))
      | Lazy \<Rightarrow>
          (let maxSlides = (if isMobile (doc s) then 20 else length (filteredMedia s))
           in and_then
                (if isMobile (doc s) \<and> length (filteredMedia s) > maxSlides then
                   (case swiperWrapper (doc s) of
                      None \<Rightarrow> Threw TypeError s
                    | Some slides \<Rightarrow>
                        Returned (s\<lparr>doc := (doc s)\<lparr>swiperWrapper :=
                                                      Some (take maxSlides slides)\<rparr>\<rparr>))
                 else Returned s)
                (\<lambda>s1. Returned (handleVideoAutoplay v allowed (new_Swiper False s1)))))"

subsection \<open>Tab switching\<close>

text \<open>The button is given by its position in \<open>tabButtons\<close>; \<open>filter\<close> is its \<open>data-filter\<close>
  attribute, \<open>undefined\<close> when it has none.\<close>

definition btn_filter :: "nat \<Rightarrow> app \<Rightarrow> string option" where
  "btn_filter btn s =
     (if btn < length (tabButtons (doc s)) then dataset_filter (tabButtons (doc s) ! btn)
      else None)"

definition activate_tab :: "nat \<Rightarrow> app \<Rightarrow> app" where
  "activate_tab btn s =
     s\<lparr>doc := (doc s)\<lparr>tabButtons :=
         map (\<lambda>(i, b). b\<lparr>btn_active := (i = btn)\<rparr>) (enumerate 0 (tabButtons (doc s)))\<rparr>\<rparr>"

definition handleTabSwitch :: "variant \<Rightarrow> bool \<Rightarrow> nat \<Rightarrow> app \<Rightarrow> outcome" where
  "handleTabSwitch v allowed btn s =
     (let flt = btn_filter btn s;
          s1 = activate_tab btn s;
          s2 = s1\<lparr>currentFilter := flt\<rparr>;
          s3 = s2\<lparr>filteredMedia :=
                    filter (\<lambda>m. Some (type m) = flt) (imported_ALL_MEDIA s2)\<rparr>;
          s4 = renderSlides v s3;
          s5 = (if swiper s4 \<noteq> None then destroy s4 else s4)
      in initSwiper v allowed s5)"

subsection \<open>View transitions\<close>

definition showGallery :: "app \<Rightarrow> outcome" where
  "showGallery s =
     (let s1 = s\<lparr>currentView := Gallery\<rparr>
      in case heroCover (doc s1) of
           None \<Rightarrow> Threw TypeError s1
         | Some cl \<Rightarrow>
             Returned (s1\<lparr>doc := (doc s1)\<lparr>heroCover := Some (classList_add ''hidden'' cl)\<rparr>,
                          timeouts := timeouts s1 @ [GalleryIn]\<rparr>))"

definition showHero :: "app \<Rightarrow> outcome" where
  "showHero s =
     (let s1 = s\<lparr>currentView := Hero\<rparr>
      in case galleryView (doc s1) of
           None \<Rightarrow> Threw TypeError s1
         | Some cl \<Rightarrow>
             Returned (pauseAllVideos
               (s1\<lparr>doc := (doc s1)\<lparr>galleryView := Some (classList_add ''hidden'' cl)\<rparr>,
                    timeouts := timeouts s1 @ [HeroIn]\<rparr>)))"

text \<open>A timer that has expired runs its callback.\<close>

fun timeout :: "variant \<Rightarrow> bool \<Rightarrow> timer \<Rightarrow> app \<Rightarrow> outcome" where
  "timeout v allowed GalleryIn s =
     (case galleryView (doc s) of
        None \<Rightarrow> Threw TypeError s
      | Some cl \<Rightarrow>
          (let s1 = s\<lparr>doc := (doc s)\<lparr>galleryView := Some (classList_remove ''hidden'' cl)\<rparr>\<rparr>
           in if swiper s1 = None then initSwiper v allowed (renderSlides v s1)
              else Returned s1))"
| "timeout v allowed HeroIn s =
     (case heroCover (doc s) of
        None \<Rightarrow> Threw TypeError s
      | Some cl \<Rightarrow>
          Returned (s\<lparr>doc := (doc s)\<lparr>heroCover := Some (classList_remove ''hidden'' cl)\<rparr>\<rparr>))"

subsection \<open>Lightbox\<close>

definition createVideo :: "string \<Rightarrow> video" where
  "createVideo source =
     \<lparr>v_src = Some source, v_data_src = None, v_poster = None, v_preload = [],
      v_muted = False, v_loop = False, v_playsinline = False,
      v_controls = True, v_autoplay = True, v_swiper_lazy = False,
      v_paused = True, v_currentTime = 0\<rparr>"

definition createImg :: "string \<Rightarrow> jsnum \<Rightarrow> img" where
  "createImg source index =
     \<lparr>i_src = Some source, i_data_src = None,
      i_alt = ''Photo '' @ js_toString (js_add index (Num 1)),
      i_loading = [], i_swiper_lazy = False\<rparr>"

definition openLightbox :: "jsnum \<Rightarrow> app \<Rightarrow> outcome" where
  "openLightbox index s =
     (let s1 = s\<lparr>lightboxIndex := Some index\<rparr>
      in case lightboxContent (doc s1) of
           None \<Rightarrow> Threw TypeError s1
         | Some old \<Rightarrow>
             (let s2 = s1\<lparr>doc := (doc s1)\<lparr>lightboxContent := Some []\<rparr>\<rparr>
              in case js_index (filteredMedia s2) index of
                   None \<Rightarrow> Threw TypeError s2
                 | Some m \<Rightarrow>
                     (let child = (if type m = ''video'' then LightboxVideo (createVideo (src m))
                                   else LightboxImg (createImg (src m) index));
                          s3 = s2\<lparr>doc := (doc s2)\<lparr>lightboxContent := Some [child]\<rparr>\<rparr>
                      in case lightbox (doc s3) of
                           None \<Rightarrow> Threw TypeError s3
                         | Some cl \<Rightarrow>
                             Returned (pauseAllVideos
                               (s3\<lparr>doc := (doc s3)\<lparr>lightbox := Some (classList_add ''active'' cl),
                                                  body_overflow := ''hidden''\<rparr>\<rparr>)))))"

text \<open>\<open>lightboxContent.querySelector('video')\<close> is the first video among the children.\<close>

fun pause_first_video :: "lightbox_child list \<Rightarrow> lightbox_child list" where
  "pause_first_video [] = []"
| "pause_first_video (LightboxVideo v # cs) = LightboxVideo (pause v) # cs"
| "pause_first_video (LightboxImg i # cs) = LightboxImg i # pause_first_video cs"

definition closeLightbox :: "variant \<Rightarrow> bool \<Rightarrow> app \<Rightarrow> outcome" where
  "closeLightbox v allowed s =
     (case lightbox (doc s) of
        None \<Rightarrow> Threw TypeError s
      | Some cl \<Rightarrow>
          (let s1 = s\<lparr>doc := (doc s)\<lparr>lightbox := Some (classList_remove ''active'' cl),
                                   body_overflow := []\<rparr>\<rparr>
           in case lightboxContent (doc s1) of
                None \<Rightarrow> Threw TypeError s1
              | Some children \<Rightarrow>
                  Returned (handleVideoAutoplay v allowed
                    (s1\<lparr>doc := (doc s1)\<lparr>lightboxContent :=
                                          Some (pause_first_video children)\<rparr>\<rparr>))))"

definition navigateLightbox :: "int \<Rightarrow> app \<Rightarrow> outcome" where
  "navigateLightbox direction s =
     (let total = Num (int (length (filteredMedia s)));
          s1 = s\<lparr>lightboxIndex :=
                   Some (js_rem (js_add (js_add (ToNumber (lightboxIndex s)) (Num direction)) total)
                                total)\<rparr>
      in openLightbox (ToNumber (lightboxIndex s1)) s1)"

text \<open>The video the lightbox was given has \<open>autoplay\<close> set: once the browser has its data, and
  if it allows it, the video starts without a call of the controller.\<close>

fun autoplay_child :: "lightbox_child \<Rightarrow> lightbox_child" where
  "autoplay_child (LightboxVideo v) =
     LightboxVideo (if v_autoplay v then v\<lparr>v_paused := False\<rparr> else v)"
| "autoplay_child (LightboxImg i) = LightboxImg i"

definition autoplay_starts :: "app \<Rightarrow> app" where
  "autoplay_starts s =
     s\<lparr>doc := (doc s)\<lparr>lightboxContent :=
                         map_option (map autoplay_child) (lightboxContent (doc s))\<rparr>\<rparr>"

subsection \<open>Events\<close>

definition handleKeyboard :: "variant \<Rightarrow> bool \<Rightarrow> string \<Rightarrow> app \<Rightarrow> outcome" where
  "handleKeyboard v allowed key s =
     (if (case lightbox (doc s) of None \<Rightarrow> False | Some cl \<Rightarrow> classList_contains ''active'' cl)
      then
        (if key = ''Escape'' then closeLightbox v allowed s
         else if key = ''ArrowLeft'' then navigateLightbox (- 1) s
         else if key = ''ArrowRight'' then navigateLightbox 1 s
         else Returned s)
      else if currentView s = Hero \<and> key = ''Enter'' then showGallery s
      else if currentView s = Gallery \<and> key = ''Escape'' then showHero s
      else Returned s)"

text \<open>The \<open>slideChange\<close> handler runs when the carousel has moved to another slide, which it
  has marked active by then.\<close>

definition slideChange :: "variant \<Rightarrow> bool \<Rightarrow> nat \<Rightarrow> app \<Rightarrow> app" where
  "slideChange v allowed i s =
     (case swiper s of
        None \<Rightarrow> s
      | Some sw \<Rightarrow>
          (let s1 = s\<lparr>swiper := Some (sw\<lparr>realIndex := i\<rparr>),
                      doc := (doc s)\<lparr>swiperWrapper :=
                                       map_option (mark_active i) (swiperWrapper (doc s))\<rparr>\<rparr>
           in handleVideoAutoplay v allowed (updateCounter (Num (int i)) s1)))"

text \<open>The \<open>click\<close> handler, for a click inside the slide at position \<open>i\<close> of the wrapper.\<close>

definition click :: "nat \<Rightarrow> app \<Rightarrow> outcome" where
  "click i s =
     (case swiperWrapper (doc s) of
        None \<Rightarrow> Returned s
      | Some slides \<Rightarrow>
          (if i < length slides \<and> swiper_slide_active (slides ! i)
           then openLightbox (Num (int (dataset_index (slides ! i)))) s
           else Returned s))"

text \<open>
  What \<open>bindEvents\<close>, \<open>initSwiper\<close> and \<open>setTimeout\<close> register, as the events the browser may
  deliver, each with the browser's answer to a \<open>play()\<close> the handler may attempt. An exception
  that leaves a handler ends that handler only: the page goes on from the state reached.
\<close>

datatype event =
  EnterGalleryClick | BackToHeroClick | TabClick nat
  | LightboxCloseClick | LightboxPrevClick | LightboxNextClick
  | KeyDown string | TimerFires timer
  | SwiperSlideChange nat | SwiperClick nat | VideoAutoplays

fun fire :: "variant \<Rightarrow> bool \<Rightarrow> event \<Rightarrow> app \<Rightarrow> outcome" where
  "fire v allowed EnterGalleryClick s = showGallery s"
| "fire v allowed BackToHeroClick s = showHero s"
| "fire v allowed (TabClick btn) s = handleTabSwitch v allowed btn s"
| "fire v allowed LightboxCloseClick s = closeLightbox v allowed s"
| "fire v allowed LightboxPrevClick s = navigateLightbox (- 1) s"
| "fire v allowed LightboxNextClick s = navigateLightbox 1 s"
| "fire v allowed (KeyDown key) s = handleKeyboard v allowed key s"
| "fire v allowed (TimerFires t) s =
     (if t \<in> set (timeouts s) then timeout v allowed t (s\<lparr>timeouts := remove1 t (timeouts s)\<rparr>)
      else Returned s)"
| "fire v allowed (SwiperSlideChange i) s = Returned (slideChange v allowed i s)"
| "fire v allowed (SwiperClick i) s = click i s"
| "fire v allowed VideoAutoplays s = Returned (autoplay_starts s)"

fun run :: "variant \<Rightarrow> (bool \<times> event) list \<Rightarrow> app \<Rightarrow> app" where
  "run v [] s = s"
| "run v ((allowed, e) # es) s = run v es (state_of (fire v allowed e s))"

section \<open>Observations\<close>

text \<open>The lightbox is open at a position of the filtered view: the overlay is shown, there is
  an element for the content, and \<open>lightboxIndex\<close> is that position.\<close>

definition lightbox_open :: "app \<Rightarrow> int \<Rightarrow> bool" where
  "lightbox_open s index =
     (lightboxIndex s = Some (Num index) \<and> 0 \<le> index \<and> index < int (length (filteredMedia s))
      \<and> (case lightbox (doc s) of None \<Rightarrow> False | Some cl \<Rightarrow> classList_contains ''active'' cl)
      \<and> lightboxContent (doc s) \<noteq> None)"

text \<open>The videos of the page that are playing, counted in the slides and in the lightbox.\<close>

definition slide_playing :: "slide \<Rightarrow> bool" where
  "slide_playing sl =
     (case content sl of VideoSlide v opacity \<Rightarrow> \<not> v_paused v | ImageSlide i \<Rightarrow> False)"

fun child_playing :: "lightbox_child \<Rightarrow> bool" where
  "child_playing (LightboxVideo v) = (\<not> v_paused v)"
| "child_playing (LightboxImg i) = False"

definition slides_of :: "app \<Rightarrow> slide list" where
  "slides_of s = (case swiperWrapper (doc s) of None \<Rightarrow> [] | Some slides \<Rightarrow> slides)"

definition lightbox_children :: "app \<Rightarrow> lightbox_child list" where
  "lightbox_children s = (case lightboxContent (doc s) of None \<Rightarrow> [] | Some cs \<Rightarrow> cs)"

definition playing_in_slides :: "app \<Rightarrow> nat" where
  "playing_in_slides s = length (filter slide_playing (slides_of s))"

definition playing_in_lightbox :: "app \<Rightarrow> nat" where
  "playing_in_lightbox s = length (filter child_playing (lightbox_children s))"

definition playing_in_document :: "app \<Rightarrow> nat" where
  "playing_in_document s = playing_in_slides s + playing_in_lightbox s"

text \<open>The videos that \<open>.gallery-swiper video\<close> selects.\<close>

definition playing_in_gallery_swiper :: "app \<Rightarrow> nat" where
  "playing_in_gallery_swiper s =
     playing_in_slides s
       + (if lightbox_in_gallery_swiper (doc s) then playing_in_lightbox s else 0)"

text \<open>The opacity of a slide's play overlay; \<open>None\<close> for a slide without one.\<close>

definition overlay_opacity :: "slide \<Rightarrow> string option" where
  "overlay_opacity sl =
     (case content sl of VideoSlide v opacity \<Rightarrow> Some opacity | ImageSlide i \<Rightarrow> None)"

definition time_value :: "media \<Rightarrow> jsnum" where
  "time_value m = new_Date (date m)"

text \<open>The time value of an item's date as an integer, for items whose date is valid.\<close>

definition the_time :: "media \<Rightarrow> int" where
  "the_time m = (case time_value m of NaN \<Rightarrow> 0 | Num t \<Rightarrow> t)"

section \<open>Scenarios\<close>

text \<open>A manifest of two images and one video, and the catalog it gives; a page with every
  mount point and one tab button per type; and the controller constructed on them.\<close>

definition scenario_MEDIA_DATA :: MEDIA_DATA where
  "scenario_MEDIA_DATA =
     \<lparr>images = [\<lparr>src = ''a.jpg'', date = ''2024-01-01'', poster = None\<rparr>,
                \<lparr>src = ''b.jpg'', date = ''2025-01-01'', poster = None\<rparr>],
      videos = [\<lparr>src = ''c.mp4'', date = ''2024-06-01'', poster = None\<rparr>]\<rparr>"

definition scenario_catalog :: "media list" where
  "scenario_catalog =
     [\<lparr>src = ''b.jpg'', date = ''2025-01-01'', poster = None, type = ''image''\<rparr>,
      \<lparr>src = ''c.mp4'', date = ''2024-06-01'', poster = None, type = ''video''\<rparr>,
      \<lparr>src = ''a.jpg'', date = ''2024-01-01'', poster = None, type = ''image''\<rparr>]"

definition scenario_page :: page where
  "scenario_page =
     \<lparr>innerWidth = 1280, heroCover = Some [], galleryView = Some [''hidden''],
      swiperWrapper = Some [],
      tabButtons = [\<lparr>dataset_filter = Some ''image'', btn_active = True\<rparr>,
                    \<lparr>dataset_filter = Some ''video'', btn_active = False\<rparr>],
      currentIndexEl = Some (Num 1), totalItemsEl = Some (Num 0),
      lightbox = Some [], lightboxContent = Some [],
      lightbox_in_gallery_swiper = False, body_overflow = []\<rparr>"

definition scenario_app :: app where
  "scenario_app = constructor scenario_catalog scenario_page"

text \<open>A catalog of fifty images, seen through a window of a given width.\<close>

definition fifty_images :: "media list" where
  "fifty_images =
     map (\<lambda>i. \<lparr>src = ''photo'' @ decimal i, date = ''2025-01-01'', poster = None,
               type = ''image''\<rparr>) [0..<50]"

definition fifty_app :: "int \<Rightarrow> app" where
  "fifty_app width = constructor fifty_images (scenario_page\<lparr>innerWidth := width\<rparr>)"

text \<open>The lightbox opened on the first of three images.\<close>

definition three_open :: app where
  "three_open = state_of (openLightbox (Num 0) (constructor (take 3 fifty_images) scenario_page))"

text \<open>A catalog with two videos; the gallery entered and switched to the video tab; then the
  first video opened in the lightbox by a click on the active slide, and playing there.\<close>

definition clips_catalog :: "media list" where
  "clips_catalog =
     [\<lparr>src = ''d.mp4'', date = ''2025-03-01'', poster = None, type = ''video''\<rparr>,
      \<lparr>src = ''e.mp4'', date = ''2025-02-01'', poster = None, type = ''video''\<rparr>,
      \<lparr>src = ''a.jpg'', date = ''2024-01-01'', poster = None, type = ''image''\<rparr>]"

definition clips_app :: app where
  "clips_app = constructor clips_catalog scenario_page"

definition on_video_tab :: "(bool \<times> event) list" where
  "on_video_tab = [(True, EnterGalleryClick), (True, TimerFires GalleryIn), (True, TabClick 1)]"

definition video_tab :: "variant \<Rightarrow> app" where
  "video_tab v = run v on_video_tab clips_app"

definition lightbox_over_carousel :: "variant \<Rightarrow> app" where
  "lightbox_over_carousel v =
     run v (on_video_tab @ [(True, SwiperClick 0), (True, VideoAutoplays)]) clips_app"

text \<open>The video tab with the carousel moved on to its second slide.\<close>

definition second_video_showing :: app where
  "second_video_showing = run Eager (on_video_tab @ [(True, SwiperSlideChange 1)]) clips_app"

text \<open>The page without the counters and without the slide container.\<close>

definition sparse_app :: app where
  "sparse_app =
     constructor scenario_catalog
       (scenario_page\<lparr>swiperWrapper := None, currentIndexEl := None, totalItemsEl := None\<rparr>)"

section \<open>What the operations leave alone\<close>

lemma pauseAllVideos_frame [simp]:
  "currentView (pauseAllVideos s) = currentView s"
  "currentFilter (pauseAllVideos s) = currentFilter s"
  "filteredMedia (pauseAllVideos s) = filteredMedia s"
  "swiper (pauseAllVideos s) = swiper s"
  "lightboxIndex (pauseAllVideos s) = lightboxIndex s"
  "imported_ALL_MEDIA (pauseAllVideos s) = imported_ALL_MEDIA s"
  "timeouts (pauseAllVideos s) = timeouts s"
  "constructed (pauseAllVideos s) = constructed s"
  "destroyed (pauseAllVideos s) = destroyed s"
  by (simp_all add: pauseAllVideos_def Let_def)

lemma handleVideoAutoplay_frame [simp]:
  "currentView (handleVideoAutoplay v a s) = currentView s"
  "currentFilter (handleVideoAutoplay v a s) = currentFilter s"
  "filteredMedia (handleVideoAutoplay v a s) = filteredMedia s"
  "swiper (handleVideoAutoplay v a s) = swiper s"
  "lightboxIndex (handleVideoAutoplay v a s) = lightboxIndex s"
  "imported_ALL_MEDIA (handleVideoAutoplay v a s) = imported_ALL_MEDIA s"
  "timeouts (handleVideoAutoplay v a s) = timeouts s"
  "constructed (handleVideoAutoplay v a s) = constructed s"
  "destroyed (handleVideoAutoplay v a s) = destroyed s"
  by (simp_all add: handleVideoAutoplay_def Let_def)

lemma updateCounter_frame [simp]:
  "currentView (updateCounter i s) = currentView s"
  "currentFilter (updateCounter i s) = currentFilter s"
  "filteredMedia (updateCounter i s) = filteredMedia s"
  "swiper (updateCounter i s) = swiper s"
  "lightboxIndex (updateCounter i s) = lightboxIndex s"
  "imported_ALL_MEDIA (updateCounter i s) = imported_ALL_MEDIA s"
  "timeouts (updateCounter i s) = timeouts s"
  "constructed (updateCounter i s) = constructed s"
  "destroyed (updateCounter i s) = destroyed s"
  by (simp_all add: updateCounter_def Let_def)

lemma renderSlides_frame [simp]:
  "currentView (renderSlides v s) = currentView s"
  "currentFilter (renderSlides v s) = currentFilter s"
  "filteredMedia (renderSlides v s) = filteredMedia s"
  "swiper (renderSlides v s) = swiper s"
  "lightboxIndex (renderSlides v s) = lightboxIndex s"
  "imported_ALL_MEDIA (renderSlides v s) = imported_ALL_MEDIA s"
  "timeouts (renderSlides v s) = timeouts s"
  "constructed (renderSlides v s) = constructed s"
  "destroyed (renderSlides v s) = destroyed s"
  by (simp_all add: renderSlides_def Let_def split: option.splits)

lemma new_Swiper_frame [simp]:
  "currentView (new_Swiper l s) = currentView s"
  "currentFilter (new_Swiper l s) = currentFilter s"
  "filteredMedia (new_Swiper l s) = filteredMedia s"
  "lightboxIndex (new_Swiper l s) = lightboxIndex s"
  "imported_ALL_MEDIA (new_Swiper l s) = imported_ALL_MEDIA s"
  "timeouts (new_Swiper l s) = timeouts s"
  "destroyed (new_Swiper l s) = destroyed s"
  by (simp_all add: new_Swiper_def)

lemma destroy_frame [simp]:
  "currentView (destroy s) = currentView s"
  "currentFilter (destroy s) = currentFilter s"
  "filteredMedia (destroy s) = filteredMedia s"
  "swiper (destroy s) = swiper s"
  "lightboxIndex (destroy s) = lightboxIndex s"
  "imported_ALL_MEDIA (destroy s) = imported_ALL_MEDIA s"
  "timeouts (destroy s) = timeouts s"
  "constructed (destroy s) = constructed s"
  "doc (destroy s) = doc s"
  by (simp_all add: destroy_def split: option.splits)

lemma initSwiper_frame [simp]:
  "currentView (state_of (initSwiper v a s)) = currentView s"
  "currentFilter (state_of (initSwiper v a s)) = currentFilter s"
  "filteredMedia (state_of (initSwiper v a s)) = filteredMedia s"
  "lightboxIndex (state_of (initSwiper v a s)) = lightboxIndex s"
  "imported_ALL_MEDIA (state_of (initSwiper v a s)) = imported_ALL_MEDIA s"
  "timeouts (state_of (initSwiper v a s)) = timeouts s"
  "destroyed (state_of (initSwiper v a s)) = destroyed s"
  by (simp_all add: initSwiper_def Let_def split: variant.splits option.splits)

lemma activate_tab_frame [simp]:
  "currentView (activate_tab b s) = currentView s"
  "currentFilter (activate_tab b s) = currentFilter s"
  "filteredMedia (activate_tab b s) = filteredMedia s"
  "swiper (activate_tab b s) = swiper s"
  "lightboxIndex (activate_tab b s) = lightboxIndex s"
  "imported_ALL_MEDIA (activate_tab b s) = imported_ALL_MEDIA s"
  "timeouts (activate_tab b s) = timeouts s"
  "constructed (activate_tab b s) = constructed s"
  "destroyed (activate_tab b s) = destroyed s"
  by (simp_all add: activate_tab_def)

lemma handleTabSwitch_filteredMedia:
  "filteredMedia (state_of (handleTabSwitch v a btn s)) =
     filter (\<lambda>m. Some (type m) = btn_filter btn s) (imported_ALL_MEDIA s)"
  by (simp add: handleTabSwitch_def Let_def)

lemma handleTabSwitch_currentFilter:
  "currentFilter (state_of (handleTabSwitch v a btn s)) = btn_filter btn s"
  by (simp add: handleTabSwitch_def Let_def)

section \<open>Filtering\<close>

text \<open>
  C1. Whatever tab button is clicked, in whatever state and in either copy of the controller,
  \<open>filteredMedia\<close> afterwards is exactly the entries of \<open>ALL_MEDIA\<close> whose type is the button's
  filter, in the order of \<open>ALL_MEDIA\<close>: it is the filtered list, hence a subsequence, every entry
  of it has the type, and each matching entry occurs as often as in \<open>ALL_MEDIA\<close>.
\<close>

theorem filtered_view_exact:
  "filteredMedia (state_of (handleTabSwitch v allowed btn s)) =
     filter (\<lambda>m. Some (type m) = btn_filter btn s) (imported_ALL_MEDIA s)
   \<and> subseq (filteredMedia (state_of (handleTabSwitch v allowed btn s))) (imported_ALL_MEDIA s)
   \<and> (\<forall>m \<in> set (filteredMedia (state_of (handleTabSwitch v allowed btn s))).
         Some (type m) = btn_filter btn s)
   \<and> mset (filteredMedia (state_of (handleTabSwitch v allowed btn s))) =
       filter_mset (\<lambda>m. Some (type m) = btn_filter btn s) (mset (imported_ALL_MEDIA s))
   \<and> currentFilter (state_of (handleTabSwitch v allowed btn s)) = btn_filter btn s
   \<and> imported_ALL_MEDIA (state_of (handleTabSwitch v allowed btn s)) = imported_ALL_MEDIA s"
  by (simp add: handleTabSwitch_filteredMedia handleTabSwitch_currentFilter
        handleTabSwitch_def Let_def)

theorem filtered_view_exact_witness:
  "filteredMedia (state_of (handleTabSwitch Lazy True 1 scenario_app)) =
     [\<lparr>src = ''c.mp4'', date = ''2024-06-01'', poster = None, type = ''video''\<rparr>]
   \<and> map type (filteredMedia (state_of (handleTabSwitch Lazy True 1 scenario_app))) = [''video'']
   \<and> btn_filter 1 scenario_app = Some ''video''"
proof -
  have f: "btn_filter 1 scenario_app = Some ''video''" by code_simp
  have a: "filter (\<lambda>m. Some (type m) = Some ''video'') (imported_ALL_MEDIA scenario_app) =
             [\<lparr>src = ''c.mp4'', date = ''2024-06-01'', poster = None, type = ''video''\<rparr>]"
    by code_simp
  note t = filtered_view_exact[of Lazy True 1 scenario_app]
  have 1: "filteredMedia (state_of (handleTabSwitch Lazy True 1 scenario_app)) =
     [\<lparr>src = ''c.mp4'', date = ''2024-06-01'', poster = None, type = ''video''\<rparr>]"
    using conjunct1[OF t] unfolding f a .
  then have 2: "map type (filteredMedia (state_of (handleTabSwitch Lazy True 1 scenario_app)))
                  = [''video'']"
    by simp
  from 1 2 f show ?thesis by blast
qed

section \<open>Lightbox navigation\<close>

lemma js_rem_nonneg: "0 \<le> a \<Longrightarrow> 0 < n \<Longrightarrow> js_rem (Num a) (Num n) = Num (a mod n)"
  by (cases "a = 0") (simp_all add: sgn_if)

lemma pauseAllVideos_doc [simp]:
  "lightbox (doc (pauseAllVideos s)) = lightbox (doc s)"
  "body_overflow (doc (pauseAllVideos s)) = body_overflow (doc s)"
  "heroCover (doc (pauseAllVideos s)) = heroCover (doc s)"
  "galleryView (doc (pauseAllVideos s)) = galleryView (doc s)"
  "tabButtons (doc (pauseAllVideos s)) = tabButtons (doc s)"
  "currentIndexEl (doc (pauseAllVideos s)) = currentIndexEl (doc s)"
  "totalItemsEl (doc (pauseAllVideos s)) = totalItemsEl (doc s)"
  "innerWidth (doc (pauseAllVideos s)) = innerWidth (doc s)"
  "lightbox_in_gallery_swiper (doc (pauseAllVideos s)) = lightbox_in_gallery_swiper (doc s)"
  "(lightboxContent (doc (pauseAllVideos s)) = None) = (lightboxContent (doc s) = None)"
  "(swiperWrapper (doc (pauseAllVideos s)) = None) = (swiperWrapper (doc s) = None)"
  by (simp_all add: pauseAllVideos_def Let_def)

lemma openLightbox_valid:
  assumes "0 \<le> i" "i < int (length (filteredMedia s))"
    and "lightbox (doc s) = Some cl" "lightboxContent (doc s) \<noteq> None"
  shows "openLightbox (Num i) s = Returned (state_of (openLightbox (Num i) s))"
    and "lightboxIndex (state_of (openLightbox (Num i) s)) = Some (Num i)"
    and "filteredMedia (state_of (openLightbox (Num i) s)) = filteredMedia s"
    and "lightbox (doc (state_of (openLightbox (Num i) s))) = Some (classList_add ''active'' cl)"
    and "lightboxContent (doc (state_of (openLightbox (Num i) s))) =
           Some [if type (filteredMedia s ! nat i) = ''video''
                 then LightboxVideo (createVideo (src (filteredMedia s ! nat i)))
                 else LightboxImg (createImg (src (filteredMedia s ! nat i)) (Num i))]"
    and "body_overflow (doc (state_of (openLightbox (Num i) s))) = ''hidden''"
  using assms
  by (auto simp add: openLightbox_def Let_def pauseAllVideos_def createVideo_def pause_def
        split: option.splits)

lemma openLightbox_open:
  assumes "0 \<le> i" "i < int (length (filteredMedia s))"
    and "lightbox (doc s) \<noteq> None" "lightboxContent (doc s) \<noteq> None"
  shows "lightbox_open (state_of (openLightbox (Num i) s)) i"
proof -
  obtain cl where cl: "lightbox (doc s) = Some cl" using assms(3) by auto
  show ?thesis
    using openLightbox_valid[OF assms(1,2) cl assms(4)] assms(1,2)
    by (simp add: lightbox_open_def classList_contains_def classList_add_def)
qed

lemma navigateLightbox_eq:
  assumes "lightboxIndex s = Some (Num i)" "0 \<le> i" "i < int (length (filteredMedia s))"
    and "d = 1 \<or> d = - 1"
  shows "navigateLightbox d s =
           openLightbox (Num ((i + d + int (length (filteredMedia s))) mod int (length (filteredMedia s))))
             (s\<lparr>lightboxIndex := Some (Num ((i + d + int (length (filteredMedia s))) mod int (length (filteredMedia s))))\<rparr>)"
proof -
  let ?n = "int (length (filteredMedia s))"
  have "0 \<le> i + d + ?n" "0 < ?n" using assms by auto
  then have "js_rem (Num (i + d + ?n)) (Num ?n) = Num ((i + d + ?n) mod ?n)"
    by (rule js_rem_nonneg)
  then show ?thesis
    using assms(1) by (simp add: navigateLightbox_def Let_def ToNumber_def del: js_rem.simps)
qed

lemma navigateLightbox_step:
  assumes "lightbox_open s index" and "direction = 1 \<or> direction = - 1"
  shows "navigateLightbox direction s = Returned (state_of (navigateLightbox direction s))"
    and "lightbox_open (state_of (navigateLightbox direction s))
           ((index + direction + int (length (filteredMedia s))) mod int (length (filteredMedia s)))"
    and "filteredMedia (state_of (navigateLightbox direction s)) = filteredMedia s"
    and "lightboxContent (doc (state_of (navigateLightbox direction s))) =
           Some [if type (filteredMedia s ! nat ((index + direction + int (length (filteredMedia s)))
                                                  mod int (length (filteredMedia s)))) = ''video''
                 then LightboxVideo (createVideo (src (filteredMedia s !
                        nat ((index + direction + int (length (filteredMedia s)))
                             mod int (length (filteredMedia s))))))
                 else LightboxImg (createImg (src (filteredMedia s !
                        nat ((index + direction + int (length (filteredMedia s)))
                             mod int (length (filteredMedia s)))))
                        (Num ((index + direction + int (length (filteredMedia s)))
                              mod int (length (filteredMedia s)))))]"
proof -
  let ?n = "int (length (filteredMedia s))"
  let ?j = "(index + direction + ?n) mod ?n"
  let ?s1 = "s\<lparr>lightboxIndex := Some (Num ?j)\<rparr>"
  from assms(1) have idx: "lightboxIndex s = Some (Num index)" "0 \<le> index" "index < ?n"
    and lb: "lightbox (doc s) \<noteq> None" "lightboxContent (doc s) \<noteq> None"
    by (auto simp: lightbox_open_def split: option.splits)
  have eq: "navigateLightbox direction s = openLightbox (Num ?j) ?s1"
    using navigateLightbox_eq[OF idx assms(2)] .
  have pos: "0 < ?n" using idx(2,3) by linarith
  have j: "0 \<le> ?j" "?j < int (length (filteredMedia ?s1))"
    using pos by (simp_all del: mod_add_self2)
  obtain cl where cl: "lightbox (doc ?s1) = Some cl" using lb by auto
  have c: "lightboxContent (doc ?s1) \<noteq> None" using lb by simp
  have l: "lightbox (doc ?s1) \<noteq> None" using lb by simp
  show "navigateLightbox direction s = Returned (state_of (navigateLightbox direction s))"
    unfolding eq using openLightbox_valid(1)[OF j cl c] .
  show "lightbox_open (state_of (navigateLightbox direction s)) ?j"
    unfolding eq using openLightbox_open[OF j l c] .
  show "filteredMedia (state_of (navigateLightbox direction s)) = filteredMedia s"
    unfolding eq using openLightbox_valid(3)[OF j cl c] by simp
  show "lightboxContent (doc (state_of (navigateLightbox direction s))) =
           Some [if type (filteredMedia s ! nat ?j) = ''video''
                 then LightboxVideo (createVideo (src (filteredMedia s ! nat ?j)))
                 else LightboxImg (createImg (src (filteredMedia s ! nat ?j)) (Num ?j))]"
    unfolding eq using openLightbox_valid(5)[OF j cl c] by simp
qed

text \<open>
  C3. With the lightbox open at a position \<open>index\<close> of a filtered view of \<open>total\<close> items
  (so \<open>total \<ge> 1\<close>), \<open>navigateLightbox\<close> in direction \<open>+1\<close> or \<open>-1\<close> returns, leaves the
  lightbox open at \<open>(index + direction + total) mod total\<close>, and does so by calling
  \<open>openLightbox\<close> at that position: the lightbox then holds the one element made for the item
  there. The filtered view is unchanged.
\<close>

theorem navigateLightbox_wraps:
  assumes "lightbox_open s index" and "direction = 1 \<or> direction = - 1"
  shows "navigateLightbox direction s = Returned (state_of (navigateLightbox direction s))
    \<and> lightbox_open (state_of (navigateLightbox direction s))
         ((index + direction + int (length (filteredMedia s))) mod int (length (filteredMedia s)))
    \<and> navigateLightbox direction s =
        openLightbox
          (Num ((index + direction + int (length (filteredMedia s))) mod int (length (filteredMedia s))))
          (s\<lparr>lightboxIndex :=
               Some (Num ((index + direction + int (length (filteredMedia s)))
                          mod int (length (filteredMedia s))))\<rparr>)
    \<and> filteredMedia (state_of (navigateLightbox direction s)) = filteredMedia s
    \<and> lightboxContent (doc (state_of (navigateLightbox direction s))) =
        Some [if type (filteredMedia s ! nat ((index + direction + int (length (filteredMedia s)))
                                               mod int (length (filteredMedia s)))) = ''video''
              then LightboxVideo (createVideo (src (filteredMedia s !
                     nat ((index + direction + int (length (filteredMedia s)))
                          mod int (length (filteredMedia s))))))
              else LightboxImg (createImg (src (filteredMedia s !
                     nat ((index + direction + int (length (filteredMedia s)))
                          mod int (length (filteredMedia s)))))
                     (Num ((index + direction + int (length (filteredMedia s)))
                           mod int (length (filteredMedia s)))))]"
proof -
  from assms(1) have idx: "lightboxIndex s = Some (Num index)" "0 \<le> index"
      "index < int (length (filteredMedia s))"
    by (auto simp: lightbox_open_def)
  show ?thesis
    using navigateLightbox_step[OF assms] navigateLightbox_eq[OF idx assms(2)] by blast
qed

theorem navigateLightbox_wraps_witness:
  "lightbox_open three_open 0 \<and> length (filteredMedia three_open) = 3
   \<and> lightbox_open (state_of (navigateLightbox (- 1) three_open)) 2
   \<and> lightboxIndex (state_of (navigateLightbox (- 1) three_open)) = Some (Num 2)"
proof -
  have o: "lightbox_open three_open 0" by code_simp
  have n: "length (filteredMedia three_open) = 3" by code_simp
  have d: "(- 1 :: int) = 1 \<or> (- 1 :: int) = - 1" by simp
  have "lightbox_open (state_of (navigateLightbox (- 1) three_open))
          ((0 + - 1 + int (length (filteredMedia three_open)))
             mod int (length (filteredMedia three_open)))"
    using navigateLightbox_wraps[OF o d] by blast
  then have o2: "lightbox_open (state_of (navigateLightbox (- 1) three_open)) 2"
    by (simp add: n)
  then have "lightboxIndex (state_of (navigateLightbox (- 1) three_open)) = Some (Num 2)"
    by (simp add: lightbox_open_def)
  with o n o2 show ?thesis by blast
qed

text \<open>
  C9. With the lightbox open at a position \<open>index\<close> of the filtered view, one step forward
  followed by one step back returns, both times without an exception, to \<open>index\<close>.
\<close>

theorem navigate_forward_back:
  assumes "lightbox_open s index"
  shows "\<not> throws (navigateLightbox 1 s)
    \<and> \<not> throws (navigateLightbox (- 1) (state_of (navigateLightbox 1 s)))
    \<and> lightboxIndex (state_of (navigateLightbox (- 1) (state_of (navigateLightbox 1 s))))
        = Some (Num index)
    \<and> lightbox_open (state_of (navigateLightbox (- 1) (state_of (navigateLightbox 1 s)))) index"
proof -
  let ?n = "int (length (filteredMedia s))"
  let ?s1 = "state_of (navigateLightbox 1 s)"
  let ?j = "(index + 1 + ?n) mod ?n"
  from assms have idx: "0 \<le> index" "index < ?n" by (auto simp: lightbox_open_def)
  have step1: "navigateLightbox 1 s = Returned ?s1" "lightbox_open ?s1 ?j"
    "filteredMedia ?s1 = filteredMedia s"
    using navigateLightbox_step[OF assms, of 1] by simp_all
  let ?s2 = "state_of (navigateLightbox (- 1) ?s1)"
  have step2: "navigateLightbox (- 1) ?s1 = Returned ?s2"
    "lightbox_open ?s2 ((?j + - 1 + ?n) mod ?n)"
    using navigateLightbox_step[OF step1(2), of "- 1"] step1(3) by simp_all
  have ret: "(?j + - 1 + ?n) mod ?n = index"
  proof -
    have "(?j + - 1 + ?n) mod ?n = (?j - 1) mod ?n" by simp
    also have "\<dots> = ((index + 1) mod ?n - 1) mod ?n" by simp
    also have "\<dots> = (index + 1 - 1) mod ?n" by (rule mod_diff_left_eq)
    also have "\<dots> = index" using idx by simp
    finally show ?thesis .
  qed
  show ?thesis
    using step1(1) step2 ret
    by (metis lightbox_open_def throws.simps(1))
qed

theorem navigate_forward_back_witness:
  "lightbox_open three_open 0
   \<and> lightboxIndex (state_of (navigateLightbox 1 three_open)) = Some (Num 1)
   \<and> lightboxIndex (state_of (navigateLightbox (- 1) (state_of (navigateLightbox 1 three_open))))
       = Some (Num 0)"
proof -
  have o: "lightbox_open three_open 0" by code_simp
  have m: "lightboxIndex (state_of (navigateLightbox 1 three_open)) = Some (Num 1)" by code_simp
  from navigate_forward_back[OF o] o m show ?thesis by blast
qed

lemma js_rem_zero: "js_rem x (Num 0) = NaN"
  by (cases x) simp_all

text \<open>
  C10. When the filtered view is empty, \<open>navigateLightbox\<close> in any direction and from any
  \<open>lightboxIndex\<close> (also \<open>undefined\<close>) sets \<open>lightboxIndex\<close> to \<open>NaN\<close>, the remainder by zero,
  and throws a \<open>TypeError\<close> where \<open>openLightbox\<close> reads the type of the item it did not find;
  by then it has emptied the lightbox content, when there is such an element. Nothing guards
  the empty view.
\<close>

theorem navigate_empty_view_throws:
  assumes "filteredMedia s = []"
  shows "navigateLightbox direction s =
           Threw TypeError
             (case lightboxContent (doc s) of
                None \<Rightarrow> s\<lparr>lightboxIndex := Some NaN\<rparr>
              | Some old \<Rightarrow> s\<lparr>lightboxIndex := Some NaN,
                               doc := (doc s)\<lparr>lightboxContent := Some []\<rparr>\<rparr>)"
  using assms
  by (simp add: navigateLightbox_def openLightbox_def Let_def ToNumber_def js_rem_zero
        split: option.splits)

theorem navigate_empty_view_throws_witness:
  "filteredMedia (constructor [] scenario_page) = []
   \<and> throws (navigateLightbox 1 (constructor [] scenario_page))
   \<and> lightboxIndex (state_of (navigateLightbox 1 (constructor [] scenario_page))) = Some NaN"
proof -
  have e: "filteredMedia (constructor [] scenario_page) = []" by code_simp
  have c: "lightboxContent (doc (constructor [] scenario_page)) = Some []" by code_simp
  from navigate_empty_view_throws[OF e, of 1] e c show ?thesis by simp
qed

section \<open>Rendering the slides\<close>

lemma updateCounter_swiperWrapper [simp]:
  "swiperWrapper (doc (updateCounter i s)) = swiperWrapper (doc s)"
  by (simp add: updateCounter_def Let_def)

lemma renderSlides_slides:
  assumes "swiperWrapper (doc s) \<noteq> None"
  shows "slides_of (renderSlides v s) =
           map (\<lambda>(index, m). make_slide v index m) (enumerate 0 (mediaToRender v s))"
  using assms
  by (auto simp add: renderSlides_def slides_of_def Let_def split: option.splits)

lemma renderSlides_absent:
  "swiperWrapper (doc s) = None \<Longrightarrow> renderSlides v s = s"
  by (simp add: renderSlides_def)

text \<open>
  C4, which holds of the lazy-loading copy only. With the slide container present, the
  lazy-loading \<open>renderSlides\<close> renders the first 20 items of the filtered view when the window
  is narrower than 768 pixels, and all items otherwise; the slide at position \<open>i\<close> is built from
  item \<open>i\<close> of the filtered view and carries \<open>i\<close> as its index. \<open>renderSlides\<close> of \<open>js/gallery.js\<close>
  renders all items at every width, with the same indices.
\<close>

theorem renderSlides_cap:
  assumes "swiperWrapper (doc s) \<noteq> None"
  shows "length (slides_of (renderSlides Lazy s)) =
           (if innerWidth (doc s) < 768 then min 20 (length (filteredMedia s))
            else length (filteredMedia s))
    \<and> (\<forall>i < length (slides_of (renderSlides Lazy s)).
          slides_of (renderSlides Lazy s) ! i = make_slide Lazy i (filteredMedia s ! i)
          \<and> dataset_index (slides_of (renderSlides Lazy s) ! i) = i)
    \<and> length (slides_of (renderSlides Eager s)) = length (filteredMedia s)
    \<and> (\<forall>i < length (slides_of (renderSlides Eager s)).
          slides_of (renderSlides Eager s) ! i = make_slide Eager i (filteredMedia s ! i)
          \<and> dataset_index (slides_of (renderSlides Eager s) ! i) = i)"
proof -
  have len: "length (slides_of (renderSlides v s)) = length (mediaToRender v s)" for v
    by (simp add: renderSlides_slides[OF assms])
  have nth: "slides_of (renderSlides v s) ! i = make_slide v i (mediaToRender v s ! i)"
    if "i < length (mediaToRender v s)" for v i
    using that by (simp add: renderSlides_slides[OF assms] nth_enumerate_eq)
  have idx: "dataset_index (make_slide v i m) = i" for v i m
    by (simp add: make_slide_def)
  have pre: "mediaToRender Lazy s ! i = filteredMedia s ! i" if "i < length (mediaToRender Lazy s)" for i
    using that by (simp add: mediaToRender_def split: if_splits)
  have eag: "mediaToRender Eager s = filteredMedia s" by (simp add: mediaToRender_def)
  have lz: "length (mediaToRender Lazy s) =
      (if innerWidth (doc s) < 768 then min 20 (length (filteredMedia s))
            else length (filteredMedia s))"
    by (simp add: mediaToRender_def isMobile_def min_def)
  show ?thesis
    unfolding len lz[symmetric]
    using nth[of _ Lazy] nth[of _ Eager] pre idx eag by (auto simp: lz)
qed

theorem renderSlides_cap_witness:
  "swiperWrapper (doc (fifty_app 375)) \<noteq> None
   \<and> length (slides_of (renderSlides Lazy (fifty_app 375))) = 20
   \<and> length (slides_of (renderSlides Lazy (fifty_app 1280))) = 50
   \<and> dataset_index (slides_of (renderSlides Lazy (fifty_app 375)) ! 19) = 19"
proof -
  have n: "swiperWrapper (doc (fifty_app 375)) \<noteq> None" by code_simp
  have w: "swiperWrapper (doc (fifty_app 1280)) \<noteq> None" by code_simp
  have l: "length (filteredMedia (fifty_app 375)) = 50" by code_simp
  have l': "length (filteredMedia (fifty_app 1280)) = 50" by code_simp
  have i: "innerWidth (doc (fifty_app 375)) = 375" by code_simp
  have i': "innerWidth (doc (fifty_app 1280)) = 1280" by code_simp
  have 1: "length (slides_of (renderSlides Lazy (fifty_app 375))) = 20"
    using conjunct1[OF renderSlides_cap[OF n]] by (simp add: l i)
  have 2: "length (slides_of (renderSlides Lazy (fifty_app 1280))) = 50"
    using conjunct1[OF renderSlides_cap[OF w]] by (simp add: l' i')
  have 3: "dataset_index (slides_of (renderSlides Lazy (fifty_app 375)) ! 19) = 19"
  proof -
    have "19 < length (slides_of (renderSlides Lazy (fifty_app 375)))" by (simp add: 1)
    with conjunct1[OF conjunct2[OF renderSlides_cap[OF n]]] show ?thesis by blast
  qed
  from n 1 2 3 show ?thesis by blast
qed

text \<open>Against C4 as a statement about both copies: in \<open>js/gallery.js\<close>, a filtered view of 50
  items gives 50 slides in a window 375 pixels wide.\<close>

theorem renderSlides_eager_no_cap:
  "innerWidth (doc (fifty_app 375)) < 768 \<and> length (filteredMedia (fifty_app 375)) = 50
   \<and> length (slides_of (renderSlides Eager (fifty_app 375))) = 50"
  by code_simp

section \<open>One video at a time\<close>

lemma pause_reset_slide_not_playing [simp]: "\<not> slide_playing (pause_reset_slide sl)"
  by (simp add: pause_def slide_playing_def pause_reset_slide_def split: slide_content.splits)

lemma show_overlay_playing [simp]: "slide_playing (show_overlay sl) = slide_playing sl"
  by (simp add: slide_playing_def show_overlay_def split: slide_content.splits)

lemma pause_reset_child_not_playing [simp]: "\<not> child_playing (pause_reset_child c)"
  by (cases c) (simp_all add: pause_def)

lemma slides_of_pauseAllVideos:
  "slides_of (pauseAllVideos s) = map (show_overlay \<circ> pause_reset_slide) (slides_of s)"
  by (simp add: pauseAllVideos_def slides_of_def Let_def split: option.splits)

lemma lightbox_children_pauseAllVideos:
  "lightbox_children (pauseAllVideos s) =
     (if lightbox_in_gallery_swiper (doc s) then map pause_reset_child (lightbox_children s)
      else lightbox_children s)"
  by (simp add: pauseAllVideos_def lightbox_children_def Let_def split: option.splits)

lemma slides_of_handleVideoAutoplay:
  "slides_of (handleVideoAutoplay v a s) = play_active v a (slides_of (pauseAllVideos s))"
  by (simp add: handleVideoAutoplay_def pauseAllVideos_def slides_of_def Let_def
      split: option.splits)

lemma lightbox_children_handleVideoAutoplay:
  "lightbox_children (handleVideoAutoplay v a s) = lightbox_children (pauseAllVideos s)"
  by (simp add: handleVideoAutoplay_def lightbox_children_def Let_def)

lemma lightbox_in_gallery_swiper_handleVideoAutoplay [simp]:
  "lightbox_in_gallery_swiper (doc (handleVideoAutoplay v a s)) = lightbox_in_gallery_swiper (doc s)"
  by (simp add: handleVideoAutoplay_def pauseAllVideos_def Let_def)

lemma lightbox_in_gallery_swiper_pauseAllVideos [simp]:
  "lightbox_in_gallery_swiper (doc (pauseAllVideos s)) = lightbox_in_gallery_swiper (doc s)"
  by (simp add: pauseAllVideos_def Let_def)

lemma play_active_at_most_one:
  "filter slide_playing sls = [] \<Longrightarrow> length (filter slide_playing (play_active v a sls)) \<le> 1"
proof (induction sls)
  case Nil
  then show ?case by simp
next
  case (Cons sl sls)
  then show ?case by (simp split: if_splits)
qed

lemma none_playing_after_pause:
  "filter slide_playing (map (show_overlay \<circ> pause_reset_slide) sls) = []"
  by (induction sls) simp_all

lemma none_playing_in_children: "filter child_playing (map pause_reset_child cs) = []"
  by (induction cs) simp_all

lemma pauseAllVideos_gallery_silent: "playing_in_gallery_swiper (pauseAllVideos s) = 0"
  by (simp add: playing_in_gallery_swiper_def playing_in_slides_def playing_in_lightbox_def
      slides_of_pauseAllVideos lightbox_children_pauseAllVideos none_playing_after_pause
      none_playing_in_children)

lemma handleVideoAutoplay_slides_at_most_one:
  "playing_in_slides (handleVideoAutoplay v a s) \<le> 1"
  unfolding playing_in_slides_def slides_of_handleVideoAutoplay slides_of_pauseAllVideos
  by (rule play_active_at_most_one) (rule none_playing_after_pause)

lemma handleVideoAutoplay_lightbox:
  "playing_in_lightbox (handleVideoAutoplay v a s) =
     (if lightbox_in_gallery_swiper (doc s) then 0 else playing_in_lightbox s)"
  by (simp add: playing_in_lightbox_def lightbox_children_handleVideoAutoplay
      lightbox_children_pauseAllVideos none_playing_in_children)

lemma pauseAllVideos_lightbox:
  "playing_in_lightbox (pauseAllVideos s) =
     (if lightbox_in_gallery_swiper (doc s) then 0 else playing_in_lightbox s)"
  by (simp add: playing_in_lightbox_def lightbox_children_pauseAllVideos none_playing_in_children)

lemma pause_reset_slide_idem [simp]: "pause_reset_slide (pause_reset_slide sl) = pause_reset_slide sl"
  by (simp add: pause_reset_slide_def pause_def split: slide_content.splits)

lemma show_overlay_idem [simp]: "show_overlay (show_overlay sl) = show_overlay sl"
  by (simp add: show_overlay_def split: slide_content.splits)

lemma pause_show_commute:
  "pause_reset_slide (show_overlay sl) = show_overlay (pause_reset_slide sl)"
  by (simp add: show_overlay_def pause_reset_slide_def split: slide_content.splits)

lemma pause_reset_child_idem [simp]: "pause_reset_child (pause_reset_child c) = pause_reset_child c"
  by (cases c) (simp_all add: pause_def)

lemma pauseAllVideos_idem: "pauseAllVideos (pauseAllVideos s) = pauseAllVideos s"
  by (simp add: pauseAllVideos_def Let_def option.map_comp comp_def pause_show_commute)

lemma playing_le_length: "length (filter child_playing cs) \<le> length cs"
  by (rule length_filter_le)

text \<open>
  What the two calls do achieve. Immediately after \<open>pauseAllVideos\<close> no video selected by
  \<open>.gallery-swiper video\<close> is playing, so that only a video of the lightbox can be; a second
  call right after changes nothing. Immediately after \<open>handleVideoAutoplay\<close> at most one video of
  the carousel is playing.
\<close>

lemma carousel_at_most_one:
  "playing_in_gallery_swiper (pauseAllVideos s) = 0
   \<and> playing_in_document (pauseAllVideos s) \<le> playing_in_lightbox s
   \<and> (length (lightbox_children s) \<le> 1 \<longrightarrow> playing_in_document (pauseAllVideos s) \<le> 1)
   \<and> pauseAllVideos (pauseAllVideos s) = pauseAllVideos s
   \<and> playing_in_gallery_swiper (handleVideoAutoplay v allowed s) \<le> 1"
proof -
  have 1: "playing_in_gallery_swiper (pauseAllVideos s) = 0"
    by (rule pauseAllVideos_gallery_silent)
  have 2: "playing_in_slides (handleVideoAutoplay v allowed s) \<le> 1"
    by (rule handleVideoAutoplay_slides_at_most_one)
  have 3: "playing_in_slides (pauseAllVideos s) = 0"
    using 1 by (simp add: playing_in_gallery_swiper_def)
  have 4: "playing_in_document (pauseAllVideos s) \<le> playing_in_lightbox s"
    using 3 by (simp add: playing_in_document_def pauseAllVideos_lightbox)
  have 5: "playing_in_lightbox s \<le> length (lightbox_children s)"
    unfolding playing_in_lightbox_def by (rule playing_le_length)
  have 6: "playing_in_gallery_swiper (handleVideoAutoplay v allowed s) \<le> 1"
    using 2 by (simp add: playing_in_gallery_swiper_def handleVideoAutoplay_lightbox)
  from 1 4 5 6 pauseAllVideos_idem[of s] show ?thesis
    by (metis le_trans)
qed

text \<open>
  C2, which the code does not keep. The lightbox is open on its own playing video, a state
  reached by entering the gallery, switching to the video tab and clicking the active slide:
  \<open>openLightbox\<close> has paused the carousel, and one video plays. \<open>handleVideoAutoplay\<close> then
  starts the video of the active slide without a look at the lightbox, and two videos play, in
  either copy of the controller. The carousel calls it from its \<open>slideChange\<close> handler, which
  stays registered, like its keyboard control, while the lightbox is open: the right arrow key
  moves the lightbox and the carousel alike.
\<close>

theorem two_videos_playing:
  "lightbox_open (lightbox_over_carousel Eager) 0
   \<and> playing_in_document (lightbox_over_carousel Eager) = 1
   \<and> playing_in_document (handleVideoAutoplay Eager True (lightbox_over_carousel Eager)) = 2
   \<and> playing_in_document (handleVideoAutoplay Lazy True (lightbox_over_carousel Lazy)) = 2
   \<and> playing_in_document (run Eager [(True, SwiperSlideChange 1)] (lightbox_over_carousel Eager)) = 2
   \<and> playing_in_document
         (run Eager [(True, KeyDown ''ArrowRight''), (True, VideoAutoplays),
                     (True, SwiperSlideChange 1)] (lightbox_over_carousel Eager)) = 2"
  by code_simp

section \<open>The catalog\<close>

lemma mset_sort_insert: "mset (sort_insert c x ys) = add_mset x (mset ys)"
  by (induction ys) simp_all

lemma mset_Array_sort: "mset (Array_sort c xs) = mset xs"
  by (induction xs) (simp_all add: Array_sort_def mset_sort_insert)

lemma set_Array_sort: "set (Array_sort c xs) = set xs"
  using mset_Array_sort[of c xs] by (metis set_mset_mset)

lemma Array_sort_Cons: "Array_sort c (x # xs) = sort_insert c x (Array_sort c xs)"
  by (simp add: Array_sort_def)

lemma sort_insert_descending:
  assumes "\<forall>y \<in> set ys. SortCompare c x y = k y - k x"
    and "sorted_wrt (\<lambda>a b. k b \<le> k a) ys"
  shows "sorted_wrt (\<lambda>a b. (k b :: int) \<le> k a) (sort_insert c x ys)"
  using assms
proof (induction ys)
  case Nil
  then show ?case by simp
next
  case (Cons y ys)
  show ?case
  proof (cases "SortCompare c x y \<le> 0")
    case True
    then have "k y \<le> k x" using Cons.prems(1) by simp
    moreover have "\<forall>z \<in> set ys. k z \<le> k y" using Cons.prems(2) by simp
    ultimately show ?thesis using True Cons.prems(2) by fastforce
  next
    case False
    then have "k x \<le> k y" using Cons.prems(1) by simp
    moreover have "sorted_wrt (\<lambda>a b. k b \<le> k a) (sort_insert c x ys)"
      using Cons by simp
    moreover have "set (sort_insert c x ys) = insert x (set ys)"
      using mset_sort_insert[of c x ys] by (metis set_mset_mset set_mset_add_mset_insert)
    ultimately show ?thesis using False Cons.prems(2) by auto
  qed
qed

lemma Array_sort_descending:
  assumes "\<forall>x \<in> set xs. \<forall>y \<in> set xs. SortCompare c x y = k y - k x"
  shows "sorted_wrt (\<lambda>a b. (k b :: int) \<le> k a) (Array_sort c xs)"
  using assms
proof (induction xs)
  case Nil
  then show ?case by (simp add: Array_sort_def)
next
  case (Cons x xs)
  have "\<forall>y \<in> set (Array_sort c xs). SortCompare c x y = k y - k x"
    using Cons.prems by (simp add: set_Array_sort)
  moreover have "sorted_wrt (\<lambda>a b. k b \<le> k a) (Array_sort c xs)"
    using Cons by simp
  ultimately show ?case
    unfolding Array_sort_Cons by (rule sort_insert_descending)
qed

lemma filter_sort_insert_other:
  "\<not> P x \<Longrightarrow> filter P (sort_insert c x ys) = filter P ys"
  by (induction ys) simp_all

lemma filter_sort_insert_same:
  assumes "\<forall>y \<in> set ys. SortCompare c x y = k y - k x"
  shows "filter (\<lambda>m. k m = (k x :: int)) (sort_insert c x ys) = x # filter (\<lambda>m. k m = k x) ys"
  using assms by (induction ys) auto

lemma Array_sort_stable:
  assumes "\<forall>x \<in> set xs. \<forall>y \<in> set xs. SortCompare c x y = k y - k x"
  shows "filter (\<lambda>m. k m = (t :: int)) (Array_sort c xs) = filter (\<lambda>m. k m = t) xs"
  using assms
proof (induction xs)
  case Nil
  then show ?case by (simp add: Array_sort_def)
next
  case (Cons x xs)
  have ih: "filter (\<lambda>m. k m = t) (Array_sort c xs) = filter (\<lambda>m. k m = t) xs"
    using Cons by simp
  have cmp: "\<forall>y \<in> set (Array_sort c xs). SortCompare c x y = k y - k x"
    using Cons.prems by (simp add: set_Array_sort)
  show ?case
  proof (cases "k x = t")
    case True
    then show ?thesis
      using filter_sort_insert_same[OF cmp] ih by (simp add: Array_sort_Cons)
  next
    case False
    then show ?thesis
      using ih by (simp add: Array_sort_Cons filter_sort_insert_other)
  qed
qed

lemma newest_first_valid:
  assumes "new_Date (date a) \<noteq> NaN" "new_Date (date b) \<noteq> NaN"
  shows "SortCompare newest_first a b = the_time b - the_time a"
  using assms
  by (cases "new_Date (date a)"; cases "new_Date (date b)")
     (simp_all add: SortCompare_def newest_first_def the_time_def time_value_def)

lemma date_with_type [simp]: "date (with_type t e) = date e"
  by (simp add: with_type_def)

lemma type_with_type [simp]: "type (with_type t e) = t"
  by (simp add: with_type_def)


lemma showGallery_ALL_MEDIA [simp]:
  "imported_ALL_MEDIA (state_of (showGallery s)) = imported_ALL_MEDIA s"
  by (simp add: showGallery_def Let_def split: option.splits)

lemma showHero_ALL_MEDIA [simp]:
  "imported_ALL_MEDIA (state_of (showHero s)) = imported_ALL_MEDIA s"
  by (simp add: showHero_def Let_def split: option.splits)

lemma timeout_ALL_MEDIA [simp]:
  "imported_ALL_MEDIA (state_of (timeout v a t s)) = imported_ALL_MEDIA s"
  by (cases t) (simp_all add: Let_def split: option.splits)

lemma handleTabSwitch_ALL_MEDIA [simp]:
  "imported_ALL_MEDIA (state_of (handleTabSwitch v a b s)) = imported_ALL_MEDIA s"
  by (simp add: handleTabSwitch_def Let_def)

lemma openLightbox_ALL_MEDIA [simp]:
  "imported_ALL_MEDIA (state_of (openLightbox i s)) = imported_ALL_MEDIA s"
  by (simp add: openLightbox_def Let_def split: option.splits)

lemma closeLightbox_ALL_MEDIA [simp]:
  "imported_ALL_MEDIA (state_of (closeLightbox v a s)) = imported_ALL_MEDIA s"
  by (simp add: closeLightbox_def Let_def split: option.splits)

lemma navigateLightbox_ALL_MEDIA [simp]:
  "imported_ALL_MEDIA (state_of (navigateLightbox d s)) = imported_ALL_MEDIA s"
  by (simp add: navigateLightbox_def Let_def)

lemma handleKeyboard_ALL_MEDIA [simp]:
  "imported_ALL_MEDIA (state_of (handleKeyboard v a k s)) = imported_ALL_MEDIA s"
  by (simp add: handleKeyboard_def)

lemma slideChange_ALL_MEDIA [simp]:
  "imported_ALL_MEDIA (slideChange v a i s) = imported_ALL_MEDIA s"
  by (simp add: slideChange_def Let_def split: option.splits)

lemma click_ALL_MEDIA [simp]:
  "imported_ALL_MEDIA (state_of (click i s)) = imported_ALL_MEDIA s"
  by (simp add: click_def split: option.splits)

lemma autoplay_starts_ALL_MEDIA [simp]:
  "imported_ALL_MEDIA (autoplay_starts s) = imported_ALL_MEDIA s"
  by (simp add: autoplay_starts_def)

lemma fire_ALL_MEDIA [simp]:
  "imported_ALL_MEDIA (state_of (fire v a e s)) = imported_ALL_MEDIA s"
  by (cases e) simp_all

lemma run_ALL_MEDIA: "imported_ALL_MEDIA (run v es s) = imported_ALL_MEDIA s"
  by (induction es arbitrary: s) auto

lemma constructor_ALL_MEDIA [simp]: "imported_ALL_MEDIA (constructor A p) = A"
  by (simp add: constructor_def)

lemma manifest_date_values:
  "new_Date ''2023-11-25'' \<noteq> NaN"
  "new_Date ''2024-02-19'' \<noteq> NaN"
  "new_Date ''2024-03-04'' \<noteq> NaN"
  "new_Date ''2024-03-18'' \<noteq> NaN"
  "new_Date ''2024-04-19'' \<noteq> NaN"
  "new_Date ''2024-06-05'' \<noteq> NaN"
  "new_Date ''2024-07-08'' \<noteq> NaN"
  "new_Date ''2024-07-16'' \<noteq> NaN"
  "new_Date ''2024-12-31'' \<noteq> NaN"
  "new_Date ''2025-04-14'' \<noteq> NaN"
  "new_Date ''2025-05-19'' \<noteq> NaN"
  "new_Date ''2025-06-15'' \<noteq> NaN"
  "new_Date ''2025-07-06'' \<noteq> NaN"
  "new_Date ''2025-09-08'' \<noteq> NaN"
  "new_Date ''2025-11-08'' \<noteq> NaN"
  by code_simp+

lemma manifest_dates_valid:
  "\<forall>e \<in> set (images MEDIA_DATA @ videos MEDIA_DATA). new_Date (date e) \<noteq> NaN"
  by (simp add: MEDIA_DATA_def manifest_date_values)

lemma manifest_size: "length (images MEDIA_DATA) = 69" "length (videos MEDIA_DATA) = 12"
  by (simp_all add: MEDIA_DATA_def)

text \<open>
  C8. For a manifest whose dates are all valid, \<open>ALL_MEDIA\<close> consists of exactly the image
  entries, each with type \<open>image\<close>, and the video entries, each with type \<open>video\<close>; it is in
  descending order of date, entries of the same date keeping the order of the concatenation;
  and whatever events the browser delivers to a controller constructed on it, in either copy,
  the catalog the controller sees stays the one it was constructed with.
\<close>

theorem catalog_sorted_once:
  assumes "\<forall>e \<in> set (images M @ videos M). new_Date (date e) \<noteq> NaN"
  shows "mset (ALL_MEDIA M) =
           mset (map (with_type ''image'') (images M)) + mset (map (with_type ''video'') (videos M))
    \<and> sorted_wrt (\<lambda>a b. the_time b \<le> the_time a) (ALL_MEDIA M)
    \<and> (\<forall>a \<in> set (ALL_MEDIA M). time_value a = Num (the_time a))
    \<and> (\<forall>t. filter (\<lambda>m. the_time m = t) (ALL_MEDIA M) =
             filter (\<lambda>m. the_time m = t)
               (map (with_type ''image'') (images M) @ map (with_type ''video'') (videos M)))
    \<and> (\<forall>v es p. imported_ALL_MEDIA (run v es (constructor (ALL_MEDIA M) p)) = ALL_MEDIA M)"
proof -
  let ?xs = "map (with_type ''image'') (images M) @ map (with_type ''video'') (videos M)"
  have valid: "\<forall>m \<in> set ?xs. new_Date (date m) \<noteq> NaN"
    using assms by auto
  then have cmp: "\<forall>x \<in> set ?xs. \<forall>y \<in> set ?xs. SortCompare newest_first x y = the_time y - the_time x"
    by (simp add: newest_first_valid)
  have 1: "mset (ALL_MEDIA M) = mset ?xs"
    unfolding ALL_MEDIA_def by (rule mset_Array_sort)
  have 2: "sorted_wrt (\<lambda>a b. the_time b \<le> the_time a) (ALL_MEDIA M)"
    unfolding ALL_MEDIA_def using cmp by (rule Array_sort_descending)
  have "set (ALL_MEDIA M) = set ?xs"
    unfolding ALL_MEDIA_def by (rule set_Array_sort)
  then have 3: "\<forall>a \<in> set (ALL_MEDIA M). time_value a = Num (the_time a)"
    using valid by (auto simp: the_time_def time_value_def split: jsnum.splits)
  have 4: "filter (\<lambda>m. the_time m = t) (ALL_MEDIA M) = filter (\<lambda>m. the_time m = t) ?xs" for t
    unfolding ALL_MEDIA_def using cmp by (rule Array_sort_stable)
  show ?thesis
    using 1 2 3 4 by (simp add: run_ALL_MEDIA)
qed

theorem catalog_sorted_once_witness:
  "length (ALL_MEDIA MEDIA_DATA) = 81
   \<and> sorted_wrt (\<lambda>a b. the_time b \<le> the_time a) (ALL_MEDIA MEDIA_DATA)
   \<and> ALL_MEDIA scenario_MEDIA_DATA = scenario_catalog
   \<and> map time_value scenario_catalog
       = [Num 1735689600000, Num 1717200000000, Num 1704067200000]
   \<and> sorted_wrt (\<lambda>a b. the_time b \<le> the_time a) (ALL_MEDIA scenario_MEDIA_DATA)
   \<and> map date (filteredMedia (constructor (ALL_MEDIA scenario_MEDIA_DATA) scenario_page))
       = [''2025-01-01'', ''2024-01-01'']
   \<and> imported_ALL_MEDIA (run Lazy on_video_tab (constructor (ALL_MEDIA scenario_MEDIA_DATA) scenario_page))
       = scenario_catalog"
proof -
  note m = catalog_sorted_once[OF manifest_dates_valid]
  from m have "size (mset (ALL_MEDIA MEDIA_DATA)) =
      size (mset (map (with_type ''image'') (images MEDIA_DATA))
            + mset (map (with_type ''video'') (videos MEDIA_DATA)))"
    by simp
  then have 0: "length (ALL_MEDIA MEDIA_DATA) = 81"
    by (simp add: manifest_size)
  from m have m2: "sorted_wrt (\<lambda>a b. the_time b \<le> the_time a) (ALL_MEDIA MEDIA_DATA)"
    by blast
  have v: "\<forall>e \<in> set (images scenario_MEDIA_DATA @ videos scenario_MEDIA_DATA).
             new_Date (date e) \<noteq> NaN"
    by code_simp
  have e: "ALL_MEDIA scenario_MEDIA_DATA = scenario_catalog" by code_simp
  have t: "map time_value scenario_catalog
             = [Num 1735689600000, Num 1717200000000, Num 1704067200000]"
    by code_simp
  have f: "map date (filteredMedia (constructor scenario_catalog scenario_page))
             = [''2025-01-01'', ''2024-01-01'']"
    by code_simp
  note c = catalog_sorted_once[OF v]
  from c have 1: "sorted_wrt (\<lambda>a b. the_time b \<le> the_time a) (ALL_MEDIA scenario_MEDIA_DATA)"
    by blast
  from c have 2: "imported_ALL_MEDIA
      (run Lazy on_video_tab (constructor (ALL_MEDIA scenario_MEDIA_DATA) scenario_page))
        = ALL_MEDIA scenario_MEDIA_DATA"
    by blast
  from 0 m2 e t 1 f 2 show ?thesis by simp
qed

section \<open>The play overlay\<close>

lemma overlay_play_slide:
  "overlay_opacity (play_slide v allowed sl) =
     (case content sl of VideoSlide vid opacity \<Rightarrow> Some ''0'' | ImageSlide i \<Rightarrow> None)"
  by (simp add: overlay_opacity_def play_slide_def Let_def split: slide_content.splits)

lemma playing_play_slide:
  "slide_playing (play_slide v False sl) = slide_playing sl"
  by (simp add: slide_playing_def play_slide_def play_def Let_def split: slide_content.splits)

text \<open>
  C6, which the code does not keep. On the video tab the first slide is active and holds a
  video. When the browser rejects \<open>play()\<close>, \<open>handleVideoAutoplay\<close> swallows the rejection and
  the video stays paused, yet the overlay of that slide is hidden (opacity \<open>0\<close>) all the same:
  the statement that hides it does not wait for the outcome of \<open>play()\<close>. Both copies of the
  controller do so.
\<close>

theorem overlay_hidden_although_rejected:
  "map swiper_slide_active (slides_of (video_tab Eager)) = [True, False]
   \<and> map overlay_opacity (slides_of (handleVideoAutoplay Eager False (video_tab Eager)))
       = [Some ''0'', Some ''1'']
   \<and> map slide_playing (slides_of (handleVideoAutoplay Eager False (video_tab Eager))) = [False, False]
   \<and> map overlay_opacity
         (slides_of (handleVideoAutoplay Lazy False (video_tab Lazy)))
       = [Some ''0'', Some ''1'']
   \<and> map slide_playing
         (slides_of (handleVideoAutoplay Lazy False (video_tab Lazy)))
       = [False, False]"
  by code_simp

section \<open>Switching tabs\<close>

lemma slides_of_new_Swiper: "slides_of (new_Swiper l s) = mark_active 0 (slides_of s)"
  by (simp add: new_Swiper_def slides_of_def mark_active_def split: option.splits)

lemma initSwiper_throws:
  "throws (initSwiper v a s) =
     (v = Lazy \<and> isMobile (doc s) \<and> 20 < length (filteredMedia s) \<and> swiperWrapper (doc s) = None)"
  by (cases v) (auto simp add: initSwiper_def Let_def split: option.splits)

lemma slides_of_initSwiper:
  assumes "\<not> throws (initSwiper v a s)"
  shows "slides_of (state_of (initSwiper v a s)) =
           play_active v a (map (show_overlay \<circ> pause_reset_slide)
             (mark_active 0
               (if v = Lazy \<and> isMobile (doc s) \<and> 20 < length (filteredMedia s)
                then take 20 (slides_of s) else slides_of s)))"
proof (cases v)
  case Eager
  then show ?thesis
    by (simp add: initSwiper_def slides_of_handleVideoAutoplay slides_of_pauseAllVideos
        slides_of_new_Swiper)
next
  case Lazy
  show ?thesis
  proof (cases "isMobile (doc s) \<and> 20 < length (filteredMedia s)")
    case True
    then obtain sls where sls: "swiperWrapper (doc s) = Some sls"
      using assms Lazy by (auto simp: initSwiper_throws)
    have "slides_of (s\<lparr>doc := (doc s)\<lparr>swiperWrapper := Some (take 20 sls)\<rparr>\<rparr>) = take 20 (slides_of s)"
      using sls by (simp add: slides_of_def)
    then show ?thesis
      using True Lazy sls
      by (simp add: initSwiper_def slides_of_handleVideoAutoplay slides_of_pauseAllVideos
          slides_of_new_Swiper)
  next
    case False
    then show ?thesis
      using Lazy
      by (auto simp add: initSwiper_def slides_of_handleVideoAutoplay slides_of_pauseAllVideos
          slides_of_new_Swiper)
  qed
qed

lemma swiper_initSwiper:
  assumes "\<not> throws (initSwiper v a s)"
  shows "swiper (state_of (initSwiper v a s)) =
           Some \<lparr>instance_id = constructed s,
                 loop = (v = Eager \<and> 3 < length (filteredMedia s)), realIndex = 0\<rparr>"
    and "constructed (state_of (initSwiper v a s)) = constructed s + 1"
  using assms
  by (cases v; auto simp add: initSwiper_def new_Swiper_def Let_def split: option.splits if_splits)+

lemma handleVideoAutoplay_counters [simp]:
  "currentIndexEl (doc (handleVideoAutoplay v a s)) = currentIndexEl (doc s)"
  "totalItemsEl (doc (handleVideoAutoplay v a s)) = totalItemsEl (doc s)"
  by (simp_all add: handleVideoAutoplay_def pauseAllVideos_def Let_def)

lemma initSwiper_counters [simp]:
  "currentIndexEl (doc (state_of (initSwiper v a s))) = currentIndexEl (doc s)"
  "totalItemsEl (doc (state_of (initSwiper v a s))) = totalItemsEl (doc s)"
  by (cases v; simp add: initSwiper_def new_Swiper_def Let_def split: option.splits)+

lemma renderSlides_currentIndexEl:
  "currentIndexEl (doc (renderSlides v s)) =
     (if swiperWrapper (doc s) = None then currentIndexEl (doc s)
      else map_option (\<lambda>old. Num 1) (currentIndexEl (doc s)))"
  by (auto simp add: renderSlides_def updateCounter_def Let_def split: option.splits)

lemma renderSlides_innerWidth [simp]: "innerWidth (doc (renderSlides v s)) = innerWidth (doc s)"
  by (auto simp add: renderSlides_def updateCounter_def Let_def split: option.splits)

lemma renderSlides_wrapper_None [simp]:
  "(swiperWrapper (doc (renderSlides v s)) = None) = (swiperWrapper (doc s) = None)"
  by (auto simp add: renderSlides_def updateCounter_def Let_def split: option.splits)

lemma activate_tab_doc [simp]:
  "swiperWrapper (doc (activate_tab b s)) = swiperWrapper (doc s)"
  "innerWidth (doc (activate_tab b s)) = innerWidth (doc s)"
  "currentIndexEl (doc (activate_tab b s)) = currentIndexEl (doc s)"
  "totalItemsEl (doc (activate_tab b s)) = totalItemsEl (doc s)"
  by (simp_all add: activate_tab_def)

lemma mediaToRender_cong:
  "filteredMedia s = filteredMedia s' \<Longrightarrow> innerWidth (doc s) = innerWidth (doc s') \<Longrightarrow>
   mediaToRender v s = mediaToRender v s'"
  by (simp add: mediaToRender_def isMobile_def)


text \<open>
  C7, for what a tab click does whether or not the filter changes. With the slide container
  present, \<open>handleTabSwitch\<close> returns; afterwards the filter is the button's and the filtered
  view the matching entries of \<open>ALL_MEDIA\<close>; the slides are rendered anew from that view alone;
  the Swiper instance is one constructed by this call, at index 0, the previous one having been
  destroyed; and the counter shows the first position. When the button's filter is the current
  one, the filter and the filtered view keep their values, and that is all that stays: the
  new instance is not the old one.
\<close>

theorem tab_switch_always_rebuilds:
  assumes "swiperWrapper (doc s) \<noteq> None"
  shows "\<not> throws (handleTabSwitch v a btn s)
    \<and> currentFilter (state_of (handleTabSwitch v a btn s)) = btn_filter btn s
    \<and> filteredMedia (state_of (handleTabSwitch v a btn s)) =
        filter (\<lambda>m. Some (type m) = btn_filter btn s) (imported_ALL_MEDIA s)
    \<and> slides_of (state_of (handleTabSwitch v a btn s)) =
        play_active v a (map (show_overlay \<circ> pause_reset_slide) (mark_active 0
          (map (\<lambda>(index, m). make_slide v index m)
             (enumerate 0 (mediaToRender v (state_of (handleTabSwitch v a btn s)))))))
    \<and> swiper (state_of (handleTabSwitch v a btn s)) =
        Some \<lparr>instance_id = constructed s,
              loop = (v = Eager \<and> 3 < length (filteredMedia (state_of (handleTabSwitch v a btn s)))),
              realIndex = 0\<rparr>
    \<and> constructed (state_of (handleTabSwitch v a btn s)) = constructed s + 1
    \<and> destroyed (state_of (handleTabSwitch v a btn s)) =
        (case swiper s of None \<Rightarrow> destroyed s | Some sw \<Rightarrow> instance_id sw # destroyed s)
    \<and> currentIndexEl (doc (state_of (handleTabSwitch v a btn s))) =
        map_option (\<lambda>old. Num 1) (currentIndexEl (doc s))
    \<and> (btn_filter btn s = currentFilter s
         \<and> filteredMedia s = filter (\<lambda>m. Some (type m) = currentFilter s) (imported_ALL_MEDIA s)
        \<longrightarrow> currentFilter (state_of (handleTabSwitch v a btn s)) = currentFilter s
          \<and> filteredMedia (state_of (handleTabSwitch v a btn s)) = filteredMedia s)
    \<and> ((\<forall>sw. swiper s = Some sw \<longrightarrow> instance_id sw < constructed s)
        \<longrightarrow> swiper (state_of (handleTabSwitch v a btn s)) \<noteq> swiper s)"
proof -
  define flt where "flt = btn_filter btn s"
  define s3 where "s3 = (activate_tab btn s)\<lparr>currentFilter := flt,
               filteredMedia := filter (\<lambda>m. Some (type m) = flt) (imported_ALL_MEDIA s)\<rparr>"
  define s4 where "s4 = renderSlides v s3"
  define s5 where "s5 = (if swiper s4 \<noteq> None then destroy s4 else s4)"
  define s' where "s' = state_of (initSwiper v a s5)"
  have out: "handleTabSwitch v a btn s = initSwiper v a s5"
    by (simp add: handleTabSwitch_def Let_def s5_def s4_def s3_def flt_def)
  have s3: "swiperWrapper (doc s3) \<noteq> None" "innerWidth (doc s3) = innerWidth (doc s)"
    "swiper s3 = swiper s" "constructed s3 = constructed s" "destroyed s3 = destroyed s"
    "filteredMedia s3 = filter (\<lambda>m. Some (type m) = flt) (imported_ALL_MEDIA s)"
    "currentIndexEl (doc s3) = currentIndexEl (doc s)"
    using assms by (simp_all add: s3_def)
  have s4: "swiperWrapper (doc s4) \<noteq> None" "innerWidth (doc s4) = innerWidth (doc s)"
    "swiper s4 = swiper s" "constructed s4 = constructed s" "destroyed s4 = destroyed s"
    "filteredMedia s4 = filteredMedia s3"
    "currentIndexEl (doc s4) = map_option (\<lambda>old. Num 1) (currentIndexEl (doc s))"
    "slides_of s4 = map (\<lambda>(index, m). make_slide v index m) (enumerate 0 (mediaToRender v s3))"
    using s3 by (auto simp add: s4_def renderSlides_currentIndexEl renderSlides_slides)
  have s5: "doc s5 = doc s4" "filteredMedia s5 = filteredMedia s3" "constructed s5 = constructed s"
    "destroyed s5 = (case swiper s of None \<Rightarrow> destroyed s | Some sw \<Rightarrow> instance_id sw # destroyed s)"
    using s4 by (auto simp add: s5_def destroy_def split: option.splits)
  have sl5: "slides_of s5 = slides_of s4"
    using s5(1) by (simp add: slides_of_def)
  have nt: "\<not> throws (initSwiper v a s5)"
    using s4(1) s5(1) by (simp add: initSwiper_throws)
  have fm: "filteredMedia s' = filteredMedia s3" and cf: "currentFilter s' = flt"
    using s5(2) by (simp_all add: s'_def s5_def s4_def s3_def)
  have iw: "innerWidth (doc s') = innerWidth (doc s)"
    unfolding s'_def using s5(1) s4(2)
    by (cases v; simp add: initSwiper_def handleVideoAutoplay_def
          pauseAllVideos_def new_Swiper_def Let_def split: option.splits)
  have mtr: "mediaToRender v s' = mediaToRender v s3"
    by (rule mediaToRender_cong) (simp_all add: fm iw s3(2))
  have short: "take 20 (slides_of s5) = slides_of s5" if "v = Lazy" "isMobile (doc s5)"
    using that s5(1) s4(2) s3(2) unfolding sl5 s4(8)
    by (simp add: mediaToRender_def isMobile_def)
  have slides: "slides_of s' =
      play_active v a (map (show_overlay \<circ> pause_reset_slide) (mark_active 0 (slides_of s5)))"
    unfolding s'_def slides_of_initSwiper[OF nt] using short by presburger
  have sw: "swiper s' =
      Some \<lparr>instance_id = constructed s5, loop = (v = Eager \<and> 3 < length (filteredMedia s5)),
            realIndex = 0\<rparr>"
    unfolding s'_def by (rule swiper_initSwiper(1)[OF nt])
  have con: "constructed s' = constructed s5 + 1"
    unfolding s'_def by (rule swiper_initSwiper(2)[OF nt])
  have des: "destroyed s' = destroyed s5"
    unfolding s'_def by simp
  have idx: "currentIndexEl (doc s') = currentIndexEl (doc s5)"
    unfolding s'_def by simp
  have fresh: "swiper s' \<noteq> swiper s"
    if "\<forall>sw. swiper s = Some sw \<longrightarrow> instance_id sw < constructed s"
    using that sw s5(3) by (cases "swiper s") auto
  have same: "currentFilter s' = currentFilter s \<and> filteredMedia s' = filteredMedia s"
    if "flt = currentFilter s"
      "filteredMedia s = filter (\<lambda>m. Some (type m) = currentFilter s) (imported_ALL_MEDIA s)"
    using that cf fm s3(6) by simp
  have "\<not> throws (handleTabSwitch v a btn s)" using nt out by simp
  moreover have "state_of (handleTabSwitch v a btn s) = s'" using out s'_def by simp
  ultimately show ?thesis
    using cf fm s3(6) slides[unfolded sl5 s4(8), folded mtr] sw[unfolded s5(2,3), folded fm]
      con[unfolded s5(3)] des[unfolded s5(4)] idx[unfolded s5(1) s4(7)] fresh same
    unfolding flt_def by simp
qed

theorem tab_switch_always_rebuilds_witness:
  "swiperWrapper (doc second_video_showing) \<noteq> None
   \<and> btn_filter 1 second_video_showing = currentFilter second_video_showing
   \<and> swiper second_video_showing = Some \<lparr>instance_id = 1, loop = False, realIndex = 1\<rparr>
   \<and> constructed second_video_showing = 2
   \<and> \<not> throws (handleTabSwitch Eager True 1 second_video_showing)
   \<and> currentFilter (state_of (handleTabSwitch Eager True 1 second_video_showing))
       = currentFilter second_video_showing
   \<and> filteredMedia (state_of (handleTabSwitch Eager True 1 second_video_showing))
       = filteredMedia second_video_showing
   \<and> constructed (state_of (handleTabSwitch Eager True 1 second_video_showing)) = 3
   \<and> swiper (state_of (handleTabSwitch Eager True 1 second_video_showing))
       \<noteq> swiper second_video_showing"
proof -
  let ?s = second_video_showing
  have w: "swiperWrapper (doc ?s) \<noteq> None" by code_simp
  have f: "btn_filter 1 ?s = currentFilter ?s" by code_simp
  have m: "filteredMedia ?s = filter (\<lambda>m. Some (type m) = currentFilter ?s) (imported_ALL_MEDIA ?s)"
    by code_simp
  have sw: "swiper ?s = Some \<lparr>instance_id = 1, loop = False, realIndex = 1\<rparr>" by code_simp
  have c: "constructed ?s = 2" by code_simp
  have inv: "\<forall>sw. swiper ?s = Some sw \<longrightarrow> instance_id sw < constructed ?s"
    by (simp add: sw c)
  note t = tab_switch_always_rebuilds[OF w, of Eager True 1]
  from t have 1: "\<not> throws (handleTabSwitch Eager True 1 ?s)" by blast
  from t f m have 2: "currentFilter (state_of (handleTabSwitch Eager True 1 ?s)) = currentFilter ?s"
    and 3: "filteredMedia (state_of (handleTabSwitch Eager True 1 ?s)) = filteredMedia ?s"
    by blast+
  from t c have 4: "constructed (state_of (handleTabSwitch Eager True 1 ?s)) = 3" by simp
  from t inv have 5: "swiper (state_of (handleTabSwitch Eager True 1 ?s)) \<noteq> swiper ?s" by blast
  from w f sw c 1 2 3 4 5 show ?thesis by blast
qed

text \<open>
  Against C7 for a click on the current tab: with the carousel on the video tab at its second
  slide, a click on the video tab replaces the Swiper instance and puts the position back to
  the first slide.
\<close>

theorem same_filter_rebuilds:
  "btn_filter 1 second_video_showing = currentFilter second_video_showing
   \<and> swiper second_video_showing = Some \<lparr>instance_id = 1, loop = False, realIndex = 1\<rparr>
   \<and> currentIndexEl (doc second_video_showing) = Some (Num 2)
   \<and> map swiper_slide_active (slides_of second_video_showing) = [False, True]
   \<and> swiper (state_of (handleTabSwitch Eager True 1 second_video_showing))
       = Some \<lparr>instance_id = 2, loop = False, realIndex = 0\<rparr>
   \<and> currentIndexEl (doc (state_of (handleTabSwitch Eager True 1 second_video_showing)))
       = Some (Num 1)
   \<and> map swiper_slide_active (slides_of (state_of (handleTabSwitch Eager True 1 second_video_showing)))
       = [True, False]
   \<and> destroyed (state_of (handleTabSwitch Eager True 1 second_video_showing)) = [1, 0]"
  by code_simp

section \<open>Missing mount points\<close>

text \<open>
  C5, for the mount points the code tests and for the two sections, which it never tests.
  \<open>showGallery\<close> does not throw when the hero section is present, nor does the callback that
  reveals it again; \<open>showHero\<close> does not throw when the gallery section is present. Where the
  code tests for an element, its absence is silent: without the lightbox \<open>handleKeyboard\<close>
  does exactly what the view keys ask, Enter in the hero view and Escape in the gallery view;
  without the slide container \<open>renderSlides\<close> does nothing; without the counters
  \<open>updateCounter\<close> does nothing.
\<close>

theorem required_mount_points:
  "(heroCover (doc s) \<noteq> None \<longrightarrow> \<not> throws (showGallery s))
   \<and> (galleryView (doc s) \<noteq> None \<longrightarrow> \<not> throws (showHero s))
   \<and> (heroCover (doc s) \<noteq> None \<longrightarrow> \<not> throws (timeout v a HeroIn s))
   \<and> (lightbox (doc s) = None \<longrightarrow>
         handleKeyboard v a key s =
           (if currentView s = Hero \<and> key = ''Enter'' then showGallery s
            else if currentView s = Gallery \<and> key = ''Escape'' then showHero s
            else Returned s))
   \<and> (swiperWrapper (doc s) = None \<longrightarrow> renderSlides v s = s)
   \<and> (currentIndexEl (doc s) = None \<and> totalItemsEl (doc s) = None \<longrightarrow> updateCounter n s = s)"
proof -
  have 1: "\<not> throws (showGallery s)" if "heroCover (doc s) \<noteq> None"
    using that by (auto simp add: showGallery_def Let_def)
  have 2: "\<not> throws (showHero s)" if "galleryView (doc s) \<noteq> None"
    using that by (auto simp add: showHero_def Let_def)
  have 3: "\<not> throws (timeout v a HeroIn s)" if "heroCover (doc s) \<noteq> None"
    using that by auto
  have 4: "handleKeyboard v a key s =
           (if currentView s = Hero \<and> key = ''Enter'' then showGallery s
            else if currentView s = Gallery \<and> key = ''Escape'' then showHero s
            else Returned s)" if "lightbox (doc s) = None"
    using that by (simp add: handleKeyboard_def)
  have 5: "renderSlides v s = s" if "swiperWrapper (doc s) = None"
    using that by (rule renderSlides_absent)
  have 6: "updateCounter n s = s" if "currentIndexEl (doc s) = None" "totalItemsEl (doc s) = None"
    using that by (simp add: updateCounter_def)
  from 1 2 3 4 5 6 show ?thesis by blast
qed

theorem required_mount_points_witness:
  "heroCover (doc sparse_app) \<noteq> None \<and> galleryView (doc sparse_app) \<noteq> None
   \<and> swiperWrapper (doc sparse_app) = None
   \<and> currentIndexEl (doc sparse_app) = None \<and> totalItemsEl (doc sparse_app) = None
   \<and> \<not> throws (showGallery sparse_app) \<and> \<not> throws (showHero sparse_app)
   \<and> \<not> throws (timeout Eager True HeroIn sparse_app)
   \<and> renderSlides Eager sparse_app = sparse_app
   \<and> updateCounter (Num 0) sparse_app = sparse_app
   \<and> lightbox (doc (sparse_app\<lparr>doc := scenario_page\<lparr>lightbox := None\<rparr>\<rparr>)) = None
   \<and> currentView (sparse_app\<lparr>doc := scenario_page\<lparr>lightbox := None\<rparr>\<rparr>) = Hero
   \<and> handleKeyboard Eager True ''Enter'' (sparse_app\<lparr>doc := scenario_page\<lparr>lightbox := None\<rparr>\<rparr>)
       = showGallery (sparse_app\<lparr>doc := scenario_page\<lparr>lightbox := None\<rparr>\<rparr>)
   \<and> currentView (state_of (handleKeyboard Eager True ''Enter''
                       (sparse_app\<lparr>doc := scenario_page\<lparr>lightbox := None\<rparr>\<rparr>))) = Gallery"
proof -
  let ?k = "sparse_app\<lparr>doc := scenario_page\<lparr>lightbox := None\<rparr>\<rparr>"
  have h: "heroCover (doc sparse_app) \<noteq> None" "galleryView (doc sparse_app) \<noteq> None"
    by code_simp+
  have o: "swiperWrapper (doc sparse_app) = None" "currentIndexEl (doc sparse_app) = None"
    "totalItemsEl (doc sparse_app) = None"
    by code_simp+
  have k: "lightbox (doc ?k) = None" "currentView ?k = Hero"
    by code_simp+
  have g: "currentView (state_of (showGallery ?k)) = Gallery" by code_simp
  note t = required_mount_points[of sparse_app Eager True "''Enter''" "Num 0"]
  note u = required_mount_points[of ?k Eager True "''Enter''" "Num 0"]
  from u k(1) have "handleKeyboard Eager True ''Enter'' ?k =
      (if currentView ?k = Hero \<and> ''Enter'' = ''Enter'' then showGallery ?k
       else if currentView ?k = Gallery \<and> ''Enter'' = ''Escape'' then showHero ?k
       else Returned ?k)"
    by blast
  then have 1: "handleKeyboard Eager True ''Enter'' ?k = showGallery ?k"
    by (simp only: k(2) simp_thms if_True)
  from g 1 have 2: "currentView (state_of (handleKeyboard Eager True ''Enter'' ?k)) = Gallery"
    by simp
  from t h o have 3: "\<not> throws (showGallery sparse_app)" "\<not> throws (showHero sparse_app)"
    "\<not> throws (timeout Eager True HeroIn sparse_app)"
    "renderSlides Eager sparse_app = sparse_app" "updateCounter (Num 0) sparse_app = sparse_app"
    by blast+
  from h o 3 k 1 2 show ?thesis by blast
qed

text \<open>
  Against C5 for the mount points used without a test: without the hero section
  \<open>showGallery\<close> throws, also when the Enter key calls it; without the gallery section
  \<open>showHero\<close> throws; without the lightbox content \<open>openLightbox\<close> throws, and without the
  lightbox \<open>closeLightbox\<close> throws.
\<close>

theorem unguarded_mount_points:
  "throws (showGallery (scenario_app\<lparr>doc := scenario_page\<lparr>heroCover := None\<rparr>\<rparr>))
   \<and> throws (handleKeyboard Eager True ''Enter''
               (scenario_app\<lparr>doc := scenario_page\<lparr>heroCover := None\<rparr>\<rparr>))
   \<and> throws (showHero (scenario_app\<lparr>doc := scenario_page\<lparr>galleryView := None\<rparr>\<rparr>))
   \<and> throws (openLightbox (Num 0)
               (scenario_app\<lparr>doc := scenario_page\<lparr>lightboxContent := None\<rparr>\<rparr>))
   \<and> throws (closeLightbox Eager True
               (scenario_app\<lparr>doc := scenario_page\<lparr>lightbox := None\<rparr>\<rparr>))"
  by code_simp

end
